theory Spec2Isabelle
  imports Complex_Main
begin

section \<open>JavaScript strings\<close>

text \<open>
  A string is a list of code units; the model keeps the 8-bit range (Latin-1), which
  covers every literal the model uses. A JavaScript number is modelled as a real number.
  The relevance score, whose exact value is the subject of a claim, carries the rounding
  of double arithmetic as a parameter; elsewhere the rounding is not modelled.
\<close>

definition toLowerChar :: "char \<Rightarrow> char" where
  "toLowerChar c =
     (let n = (of_char c :: nat)
      in if (65 \<le> n \<and> n \<le> 90) \<or> (192 \<le> n \<and> n \<le> 222 \<and> n \<noteq> 215)
         then char_of (n + 32) else c)"

definition toLowerCase :: "string \<Rightarrow> string" where
  "toLowerCase s = map toLowerChar s"

fun startsWith :: "string \<Rightarrow> string \<Rightarrow> bool" where
  "startsWith s [] = True"
| "startsWith [] (k # ks) = False"
| "startsWith (c # cs) (k # ks) = (c = k \<and> startsWith cs ks)"

text \<open>\<open>String.prototype.includes\<close>: \<open>str_includes s k\<close> is \<open>s.includes(k)\<close>.\<close>

fun str_includes :: "string \<Rightarrow> string \<Rightarrow> bool" where
  "str_includes [] k = (k = [])"
| "str_includes (c # cs) k = (startsWith (c # cs) k \<or> str_includes cs k)"

text \<open>The class \<open>\s\<close> of a regular expression, within the 8-bit range.\<close>

definition isSpace :: "char \<Rightarrow> bool" where
  "isSpace c = (let n = (of_char c :: nat) in (9 \<le> n \<and> n \<le> 13) \<or> n = 32 \<or> n = 160)"

text \<open>
  \<open>s.split(/\s+/)\<close>: the pieces between maximal runs of white space; a run at either
  end leaves an empty piece there, and the empty string gives one empty piece.
\<close>

fun split_ws :: "string \<Rightarrow> string list" where
  "split_ws [] = [[]]"
| "split_ws (c # cs) =
     (if isSpace c
      then (case cs of
              [] \<Rightarrow> [] # split_ws cs
            | d # ds \<Rightarrow> if isSpace d then split_ws cs else [] # split_ws cs)
      else (case split_ws cs of
              [] \<Rightarrow> [[c]]
            | w # ws \<Rightarrow> (c # w) # ws))"

section \<open>Query intent parser (aiSearch.ts)\<close>

datatype learning_type = Practical | Theoretical | Mixed

record QueryIntent =
  topic :: string
  difficulty :: string
  keywords' :: "string list"
  estimatedDuration :: real
  confidence :: real
  learningType :: learning_type

text \<open>The synonym table, in insertion order (the iteration order of a \<open>Map\<close>).\<close>

definition topicMappings :: "(string \<times> string) list" where
  "topicMappings =
     [(''web development'', ''web-development''),
      (''frontend'', ''web-development''),
      (''backend'', ''web-development''),
      (''react'', ''web-development''),
      (''javascript'', ''web-development''),
      (''python'', ''data-science''),
      (''machine learning'', ''ai-ml''),
      (''ai'', ''ai-ml''),
      (''blockchain'', ''web3''),
      (''crypto'', ''web3''),
      (''ui/ux'', ''design''),
      (''design'', ''design''),
      (''marketing'', ''business''),
      (''entrepreneurship'', ''business'')]"

text \<open>The topic loop: the first key contained in the query decides, with confidence 0.8.\<close>

fun detectTopicMapping :: "string \<Rightarrow> (string \<times> string) list \<Rightarrow> string \<times> real" where
  "detectTopicMapping lowerQuery [] = ([], 5 / 10)"
| "detectTopicMapping lowerQuery ((key, val) # rest) =
     (if str_includes lowerQuery key then (val, 8 / 10)
      else detectTopicMapping lowerQuery rest)"

definition detectDifficulty :: "string \<Rightarrow> real \<Rightarrow> string \<times> real" where
  "detectDifficulty lowerQuery conf =
     (if str_includes lowerQuery ''advanced'' \<or> str_includes lowerQuery ''expert''
      then (''advanced'', conf + 1 / 10)
      else if str_includes lowerQuery ''intermediate'' \<or> str_includes lowerQuery ''medium''
      then (''intermediate'', conf + 1 / 10)
      else if str_includes lowerQuery ''beginner'' \<or> str_includes lowerQuery ''basic''
              \<or> str_includes lowerQuery ''intro''
      then (''beginner'', conf + 1 / 10)
      else (''beginner'', conf))"

definition estimateDuration :: "string \<Rightarrow> real" where
  "estimateDuration lowerQuery =
     (if str_includes lowerQuery ''quick'' \<or> str_includes lowerQuery ''crash course'' then 5
      else if str_includes lowerQuery ''comprehensive'' \<or> str_includes lowerQuery ''complete''
      then 30
      else if str_includes lowerQuery ''deep'' \<or> str_includes lowerQuery ''master'' then 50
      else 10)"

definition detectLearningType :: "string \<Rightarrow> learning_type" where
  "detectLearningType lowerQuery =
     (if str_includes lowerQuery ''hands-on'' \<or> str_includes lowerQuery ''project''
         \<or> str_includes lowerQuery ''build'' then Practical
      else if str_includes lowerQuery ''theory'' \<or> str_includes lowerQuery ''concept''
         \<or> str_includes lowerQuery ''understand'' then Theoretical
      else Mixed)"

definition stopWords :: "string list" where
  "stopWords = [''learn'', ''how'', ''to'', ''the'', ''a'', ''an'', ''and'', ''or'', ''but'',
                ''in'', ''on'', ''at'', ''for'', ''with'']"

definition extractKeywords :: "string list \<Rightarrow> string list" where
  "extractKeywords ws = filter (\<lambda>w. \<not> List.member stopWords w \<and> length w > 2) ws"

definition parseQueryIntent :: "string \<Rightarrow> QueryIntent" where
  "parseQueryIntent query =
     (let lowerQuery = toLowerCase query;
          ws = split_ws lowerQuery;
          (tp, conf0) = detectTopicMapping lowerQuery topicMappings;
          (diff, conf1) = detectDifficulty lowerQuery conf0
      in \<lparr> topic = tp,
           difficulty = diff,
           keywords' = extractKeywords ws,
           estimatedDuration = estimateDuration lowerQuery,
           confidence = min conf1 1,
           learningType = detectLearningType lowerQuery \<rparr>)"

section \<open>Collaborators: thrown values and store responses\<close>

text \<open>
  A value that is thrown or rejected: an instance of \<open>Error\<close> with its message, or any
  other value (the plain error object a store client hands back), with its message field.
\<close>

datatype js_error = ErrorInstance string | OtherValue string

text \<open>
  What awaiting a store call gives: the call rejects, or it resolves to a pair of
  \<open>data\<close> and \<open>error\<close>, each possibly null.
\<close>

datatype 'a response = Rejected js_error | Resolved "'a option" "js_error option"

section \<open>Catalog entries (supabase.ts)\<close>

record LearningPath =
  path_id :: string
  path_title :: string
  path_description :: string
  path_topic :: string
  difficulty_level :: string
  path_estimated_duration :: real
  created_by :: string
  is_public :: bool
  total_nodes :: real
  completion_rate :: real
  path_tags :: "string list option"
  path_created_at :: string
  path_updated_at :: string

section \<open>Relevance ranking (aiSearch.ts)\<close>

text \<open>
  \<open>calculateRelevanceScore\<close>: the score is accumulated statement by statement; each
  \<open>forEach\<close> over the keywords is a fold. The numbers are doubles: \<open>rnd\<close> is the rounding
  of double arithmetic (round to nearest), applied to the result of every addition,
  subtraction, multiplication and division, as the code performs them. \<open>Math.abs\<close>,
  \<open>Math.max\<close> and \<open>Math.min\<close> do not round. Overflow and \<open>NaN\<close> are not modelled.
\<close>

definition calculateRelevanceScore ::
  "(real \<Rightarrow> real) \<Rightarrow> LearningPath \<Rightarrow> QueryIntent \<Rightarrow> string \<Rightarrow> real" where
  "calculateRelevanceScore rnd path intent query =
     (let lowerQuery = toLowerCase query;
          lowerTitle = toLowerCase (path_title path);
          lowerDescription = toLowerCase (path_description path);
          score0 = 0;
          score1 = (if str_includes lowerTitle lowerQuery then rnd (score0 + 10) else score0);
          score2 = fold (\<lambda>keyword sc. if str_includes lowerTitle keyword then rnd (sc + 5) else sc)
                     (keywords' intent) score1;
          score3 = (if str_includes lowerDescription lowerQuery then rnd (score2 + 5) else score2);
          score4 = fold (\<lambda>keyword sc.
                           if str_includes lowerDescription keyword then rnd (sc + 2) else sc)
                     (keywords' intent) score3;
          score5 = (if path_topic path = topic intent then rnd (score4 + 8) else score4);
          score6 = (if difficulty_level path = difficulty intent then rnd (score5 + 3) else score5);
          durationDiff = \<bar>rnd (path_estimated_duration path - estimatedDuration intent)\<bar>;
          score7 = rnd (score6 + max 0 (rnd (5 - rnd (durationDiff / 10))));
          score8 = rnd (score7 + rnd (completion_rate path * 2));
          score9 = rnd (score8 + min (rnd (total_nodes path / 10)) 3)
      in case path_tags path of
           None \<Rightarrow> score9
         | Some tags \<Rightarrow>
             fold (\<lambda>keyword sc.
                     if list_ex (\<lambda>tag. str_includes (toLowerCase tag) keyword) tags
                     then rnd (sc + 1) else sc)
               (keywords' intent) score9)"


text \<open>
  Arithmetic without rounding: the exact sums and quotients of the reals. Double
  arithmetic agrees with it wherever every result is itself a double, as on small
  integers and halves.
\<close>

definition exactArithmetic :: "real \<Rightarrow> real" where
  "exactArithmetic x = x"

text \<open>
  What the proofs use of the rounding of doubles: it is monotone, it leaves a value that
  is already rounded as it is, and it commutes with the change of sign.
\<close>

definition rounding :: "(real \<Rightarrow> real) \<Rightarrow> bool" where
  "rounding rnd =
     (mono rnd \<and> (\<forall>x. rnd (rnd x) = rnd x) \<and> (\<forall>x. rnd (- x) = - rnd x))"

text \<open>\<open>n\<close> rounded additions of \<open>w\<close> to \<open>s\<close>, one after the other.\<close>

fun addRepeatedly :: "(real \<Rightarrow> real) \<Rightarrow> real \<Rightarrow> nat \<Rightarrow> real \<Rightarrow> real" where
  "addRepeatedly rnd w 0 s = s"
| "addRepeatedly rnd w (Suc n) s = addRepeatedly rnd w n (rnd (s + w))"

text \<open>
  The weighted sum of the scoring factors as double arithmetic adds it up, from left to
  right, every result rounded: 10 for a query match in the title and 5 per keyword
  matched there, 5 for a query match in the description and 2 per keyword matched there,
  8 for the topic, 3 for the difficulty, \<open>max(0, 5 - durationDiff / 10)\<close>, twice the
  completion rate, \<open>min(nodes / 10, 3)\<close>, and 1 per keyword matched in the tags. A bonus
  that is not earned adds nothing and rounds nothing.
\<close>

definition roundedSum ::
  "(real \<Rightarrow> real) \<Rightarrow> bool \<Rightarrow> nat \<Rightarrow> bool \<Rightarrow> nat \<Rightarrow> bool \<Rightarrow> bool \<Rightarrow> real \<Rightarrow> real \<Rightarrow> real \<Rightarrow> nat
     \<Rightarrow> real" where
  "roundedSum rnd titleQuery titleKeywords descriptionQuery descriptionKeywords topicEqual
     difficultyEqual durationDiff completionRate totalNodes tagKeywords =
     (let s1 = (if titleQuery then rnd (0 + 10) else 0);
          s2 = addRepeatedly rnd 5 titleKeywords s1;
          s3 = (if descriptionQuery then rnd (s2 + 5) else s2);
          s4 = addRepeatedly rnd 2 descriptionKeywords s3;
          s5 = (if topicEqual then rnd (s4 + 8) else s4);
          s6 = (if difficultyEqual then rnd (s5 + 3) else s5);
          s7 = rnd (s6 + max 0 (rnd (5 - rnd (durationDiff / 10))));
          s8 = rnd (s7 + rnd (completionRate * 2));
          s9 = rnd (s8 + min (rnd (totalNodes / 10)) 3)
      in addRepeatedly rnd 1 tagKeywords s9)"

text \<open>
  The weighted sum as the specification words it: the raw query as a substring of the
  title and of the description, the keywords found in the title, the description and
  the tag set.
\<close>

definition count_matches :: "(string \<Rightarrow> bool) \<Rightarrow> string list \<Rightarrow> real" where
  "count_matches P ks = real (length (filter P ks))"

definition score_spec :: "LearningPath \<Rightarrow> QueryIntent \<Rightarrow> string \<Rightarrow> real" where
  "score_spec path intent rawQuery =
     (if str_includes (path_title path) rawQuery then 10 else 0)
     + 5 * count_matches (\<lambda>k. str_includes (path_title path) k) (keywords' intent)
     + (if str_includes (path_description path) rawQuery then 5 else 0)
     + 2 * count_matches (\<lambda>k. str_includes (path_description path) k) (keywords' intent)
     + (if path_topic path = topic intent then 8 else 0)
     + (if difficulty_level path = difficulty intent then 3 else 0)
     + max 0 (5 - \<bar>path_estimated_duration path - estimatedDuration intent\<bar> / 10)
     + 2 * completion_rate path
     + min (total_nodes path / 10) 3
     + count_matches
         (\<lambda>k. list_ex (\<lambda>tag. str_includes tag k)
                (case path_tags path of None \<Rightarrow> [] | Some tags \<Rightarrow> tags))
         (keywords' intent)"

text \<open>
  The scoring factors with the matching the code performs: the lower-cased query against
  the lower-cased title and description, each keyword as it stands against the
  lower-cased title, description and tags, and no tag match when the tag list is null.
\<close>

definition titleQueryMatch :: "LearningPath \<Rightarrow> string \<Rightarrow> bool" where
  "titleQueryMatch path query =
     str_includes (toLowerCase (path_title path)) (toLowerCase query)"

definition titleKeywordMatches :: "LearningPath \<Rightarrow> QueryIntent \<Rightarrow> real" where
  "titleKeywordMatches path intent =
     count_matches (\<lambda>k. str_includes (toLowerCase (path_title path)) k) (keywords' intent)"

definition descriptionQueryMatch :: "LearningPath \<Rightarrow> string \<Rightarrow> bool" where
  "descriptionQueryMatch path query =
     str_includes (toLowerCase (path_description path)) (toLowerCase query)"

definition descriptionKeywordMatches :: "LearningPath \<Rightarrow> QueryIntent \<Rightarrow> real" where
  "descriptionKeywordMatches path intent =
     count_matches (\<lambda>k. str_includes (toLowerCase (path_description path)) k) (keywords' intent)"

definition topicMatch :: "LearningPath \<Rightarrow> QueryIntent \<Rightarrow> bool" where
  "topicMatch path intent = (path_topic path = topic intent)"

definition difficultyMatch :: "LearningPath \<Rightarrow> QueryIntent \<Rightarrow> bool" where
  "difficultyMatch path intent = (difficulty_level path = difficulty intent)"

definition durationDifference :: "LearningPath \<Rightarrow> QueryIntent \<Rightarrow> real" where
  "durationDifference path intent = \<bar>path_estimated_duration path - estimatedDuration intent\<bar>"

definition tagKeywordMatches :: "LearningPath \<Rightarrow> QueryIntent \<Rightarrow> real" where
  "tagKeywordMatches path intent =
     (case path_tags path of
        None \<Rightarrow> 0
      | Some tags \<Rightarrow>
          count_matches (\<lambda>k. list_ex (\<lambda>tag. str_includes (toLowerCase tag) k) tags)
            (keywords' intent))"

text \<open>One input scores at least as high as another on every factor.\<close>

definition factors_le ::
  "LearningPath \<times> QueryIntent \<times> string \<Rightarrow> LearningPath \<times> QueryIntent \<times> string \<Rightarrow> bool" where
  "factors_le a b =
     (case (a, b) of ((p, i, q), (p', i', q')) \<Rightarrow>
        (titleQueryMatch p q \<longrightarrow> titleQueryMatch p' q')
        \<and> titleKeywordMatches p i \<le> titleKeywordMatches p' i'
        \<and> (descriptionQueryMatch p q \<longrightarrow> descriptionQueryMatch p' q')
        \<and> descriptionKeywordMatches p i \<le> descriptionKeywordMatches p' i'
        \<and> (topicMatch p i \<longrightarrow> topicMatch p' i')
        \<and> (difficultyMatch p i \<longrightarrow> difficultyMatch p' i')
        \<and> durationDifference p' i' \<le> durationDifference p i
        \<and> completion_rate p \<le> completion_rate p'
        \<and> total_nodes p \<le> total_nodes p'
        \<and> tagKeywordMatches p i \<le> tagKeywordMatches p' i')"

text \<open>Sample inputs.\<close>

definition samplePath :: LearningPath where
  "samplePath =
     \<lparr> path_id = ''p1'', path_title = ''Chess Openings'', path_description = ''Play better'',
       path_topic = ''design'', difficulty_level = ''beginner'', path_estimated_duration = 30,
       created_by = ''u1'', is_public = True, total_nodes = 20, completion_rate = 1 / 2,
       path_tags = Some [''Chess'', ''strategy''], path_created_at = ''2025-07-04'',
       path_updated_at = ''2025-07-04'' \<rparr>"

definition sampleIntent :: QueryIntent where
  "sampleIntent =
     \<lparr> topic = ''design'', difficulty = ''beginner'', keywords' = [''chess''],
       estimatedDuration = 10, confidence = 1 / 2, learningType = Mixed \<rparr>"

section \<open>Search orchestrator (aiSearch.ts)\<close>

record SearchFilters =
  filter_topic :: "string option"
  filter_difficulty :: "string option"
  filter_duration :: "(real \<times> real) option"
  filter_tags :: "string list option"
  filter_isPublic :: "bool option"

record AISearchResult =
  paths :: "(LearningPath \<times> real) list"
  suggestedTopics :: "string list"
  result_estimatedDuration :: real
  result_difficulty :: string
  result_confidence :: real



text \<open>The remote read, as the query builder is called: filters in call order.\<close>

datatype query_filter =
    Eq_bool string bool
  | Eq_str string string
  | Or_clause string
  | Gte string real
  | Lte string real
  | TextSearch string string

record search_query =
  from_table :: string
  selection :: string
  filters :: "query_filter list"
  order_by :: "(string \<times> bool) list"
  limit_rows :: "nat option"











text \<open>A \<open>Set\<close> keeps insertion order and ignores a value it already holds.\<close>

definition set_add :: "'a \<Rightarrow> 'a list \<Rightarrow> 'a list" where
  "set_add x xs = (if List.member xs x then xs else xs @ [x])"















section \<open>Learning nodes and progress rows (supabase.ts)\<close>

datatype content_type = Video | Article | Course | Exercise | Book

text \<open>
  A node as the generator emits it (\<open>LearningNode\<close> without the columns the store fills
  in), and a stored node. The description, a text template, is not modelled.
\<close>

record GeneratedNode =
  node_title :: string
  node_content_type :: content_type
  resource_url :: "string option"
  node_estimated_duration :: real
  order_index :: int
  prerequisites :: "string list"
  is_required :: bool

record LearningNode = GeneratedNode +
  node_id :: string
  node_path_id :: string

record UserProgress =
  progress_id :: string
  progress_user_id :: string
  progress_path_id :: string
  progress_node_id :: string
  progress_status :: string
  progress_percentage :: real
  time_spent :: real

section \<open>Query cache (database.ts)\<close>

text \<open>
  The cache maps a key to a payload of any shape and the time it was written, in
  milliseconds. \<open>Null\<close> is the \<open>null\<close> that \<open>fetchPathWithNodes\<close> returns on failure.
\<close>

datatype payload =
    PathWithNodes LearningPath "LearningNode list"
  | ProgressRows "UserProgress list"
  | PathRows "LearningPath list"
  | Null

record cache_entry =
  data :: payload
  timestamp :: int

type_synonym query_cache = "string \<rightharpoonup> cache_entry"

definition CACHE_DURATION :: int where
  "CACHE_DURATION = 5 * 60 * 1000"

text \<open>The calls a function makes to the store, in order.\<close>

datatype store_op =
    SelectPathWithNodes string
  | SelectProgress string string
  | SelectPath string
  | DeletePath string

text \<open>
  The \<open>try\<close> block of \<open>fetchPathWithNodes\<close> with its \<open>catch\<close>: \<open>fetch\<close> is the answer of
  the store to the single-row read and \<open>now'\<close> is \<open>Date.now()\<close> at the cache write. A
  rejected call, an error in the response or a missing row end in the \<open>catch\<close> block,
  which returns \<open>null\<close> and leaves the cache alone. The nodes are sorted by
  \<open>order_index\<close> (the sort is stable).
\<close>

definition fetchPathRemote ::
  "int \<Rightarrow> (string \<Rightarrow> (LearningPath \<times> LearningNode list option) response)
     \<Rightarrow> query_cache \<Rightarrow> string \<Rightarrow> payload \<times> query_cache \<times> store_op list" where
  "fetchPathRemote now' fetch queryCache pathId =
     (case fetch pathId of
        Resolved (Some (path, learning_nodes)) None \<Rightarrow>
          (let result = PathWithNodes path
                 (case learning_nodes of
                    None \<Rightarrow> []
                  | Some ns \<Rightarrow> sort_key order_index ns)
           in (result,
               queryCache(''path-nodes-'' @ pathId \<mapsto> \<lparr> data = result, timestamp = now' \<rparr>),
               [SelectPathWithNodes pathId]))
      | _ \<Rightarrow> (Null, queryCache, [SelectPathWithNodes pathId]))"

text \<open>
  \<open>fetchPathWithNodes\<close>: \<open>now\<close> is \<open>Date.now()\<close> at the freshness test. The result is the
  payload returned, the cache afterwards and the store calls made.
\<close>

definition fetchPathWithNodes ::
  "int \<Rightarrow> int \<Rightarrow> (string \<Rightarrow> (LearningPath \<times> LearningNode list option) response)
     \<Rightarrow> query_cache \<Rightarrow> string \<Rightarrow> payload \<times> query_cache \<times> store_op list" where
  "fetchPathWithNodes now now' fetch queryCache pathId =
     (case queryCache (''path-nodes-'' @ pathId) of
        Some cached \<Rightarrow>
          if now - timestamp cached < CACHE_DURATION
          then (data cached, queryCache, [])
          else fetchPathRemote now' fetch queryCache pathId
      | None \<Rightarrow> fetchPathRemote now' fetch queryCache pathId)"

text \<open>\<open>getUserProgress\<close>, with the same conventions; its \<open>catch\<close> block returns no rows.\<close>

definition progressRemote ::
  "int \<Rightarrow> (string \<Rightarrow> string \<Rightarrow> UserProgress list response)
     \<Rightarrow> query_cache \<Rightarrow> string \<Rightarrow> string \<Rightarrow> payload \<times> query_cache \<times> store_op list" where
  "progressRemote now' fetch queryCache userId pathId =
     (case fetch userId pathId of
        Resolved found None \<Rightarrow>
          (let result = ProgressRows (case found of None \<Rightarrow> [] | Some rs \<Rightarrow> rs)
           in (result,
               queryCache(''progress-'' @ userId @ ''-'' @ pathId
                            \<mapsto> \<lparr> data = result, timestamp = now' \<rparr>),
               [SelectProgress userId pathId]))
      | _ \<Rightarrow> (ProgressRows [], queryCache, [SelectProgress userId pathId]))"

definition getUserProgress ::
  "int \<Rightarrow> int \<Rightarrow> (string \<Rightarrow> string \<Rightarrow> UserProgress list response)
     \<Rightarrow> query_cache \<Rightarrow> string \<Rightarrow> string \<Rightarrow> payload \<times> query_cache \<times> store_op list" where
  "getUserProgress now now' fetch queryCache userId pathId =
     (case queryCache (''progress-'' @ userId @ ''-'' @ pathId) of
        Some cached \<Rightarrow>
          if now - timestamp cached < CACHE_DURATION
          then (data cached, queryCache, [])
          else progressRemote now' fetch queryCache userId pathId
      | None \<Rightarrow> progressRemote now' fetch queryCache userId pathId)"

definition clearAllCache :: "query_cache \<Rightarrow> query_cache" where
  "clearAllCache queryCache = Map.empty"

section \<open>Delete protocol (database.ts)\<close>

text \<open>
  The store as \<open>deletePath\<close> sees it: the rows of \<open>learning_paths\<close> by id, and what goes
  wrong with the next single-row read and the next delete, if anything. A read without a
  fault answers with the row of that id, or with no row; a delete without a fault removes
  the row; a delete with a fault leaves the rows as they are.
\<close>

datatype fault = NoFault | ErrorReturned js_error | CallRejected js_error

record store =
  rows :: "string \<rightharpoonup> LearningPath"
  select_fault :: fault
  delete_fault :: fault

definition store_select :: "store \<Rightarrow> string \<Rightarrow> LearningPath response" where
  "store_select st pathId =
     (case select_fault st of
        NoFault \<Rightarrow> Resolved (rows st pathId) None
      | ErrorReturned e \<Rightarrow> Resolved None (Some e)
      | CallRejected e \<Rightarrow> Rejected e)"

definition store_delete :: "store \<Rightarrow> string \<Rightarrow> store \<times> unit response" where
  "store_delete st pathId =
     (case delete_fault st of
        NoFault \<Rightarrow> (st\<lparr> rows := (rows st)(pathId := None) \<rparr>, Resolved None None)
      | ErrorReturned e \<Rightarrow> (st, Resolved None (Some e))
      | CallRejected e \<Rightarrow> (st, Rejected e))"

text \<open>
  The body of the \<open>try\<close> block of \<open>deletePath\<close>: the value thrown, if any, with the store,
  the cache and the store calls made. The settle delay before returning is not modelled.
\<close>

definition deleteBody ::
  "store \<Rightarrow> query_cache \<Rightarrow> string \<Rightarrow> string
     \<Rightarrow> (js_error + unit) \<times> store \<times> query_cache \<times> store_op list" where
  "deleteBody st queryCache pathId userId =
     (case store_select st pathId of
        Rejected fetchError \<Rightarrow> (Inl fetchError, st, queryCache, [SelectPath pathId])
      | Resolved path (Some fetchError) \<Rightarrow> (Inl fetchError, st, queryCache, [SelectPath pathId])
      | Resolved None None \<Rightarrow>
          (Inl (ErrorInstance ''Learning path not found or already deleted''),
           st, queryCache, [SelectPath pathId])
      | Resolved (Some path) None \<Rightarrow>
          if created_by path \<noteq> userId
          then (Inl (ErrorInstance ''You can only delete paths you created''),
                st, queryCache, [SelectPath pathId])
          else (case store_delete st pathId of
                  (st', Rejected deleteError) \<Rightarrow>
                    (Inl deleteError, st', queryCache, [SelectPath pathId, DeletePath pathId])
                | (st', Resolved d (Some deleteError)) \<Rightarrow>
                    (Inl deleteError, st', queryCache, [SelectPath pathId, DeletePath pathId])
                | (st', Resolved d None) \<Rightarrow>
                    (Inr (), st', clearAllCache (clearAllCache queryCache),
                     [SelectPath pathId, DeletePath pathId])))"

text \<open>The \<open>catch\<close> block: a new \<open>Error\<close> whose message carries the one that was caught.\<close>

definition rethrowWithContext :: "js_error \<Rightarrow> js_error" where
  "rethrowWithContext err =
     (let errorMessage = (case err of
                            ErrorInstance message \<Rightarrow> message
                          | OtherValue v \<Rightarrow> ''Unknown deletion error'')
      in ErrorInstance (''Failed to delete learning path: '' @ errorMessage))"

definition deletePath ::
  "store \<Rightarrow> query_cache \<Rightarrow> string \<Rightarrow> string
     \<Rightarrow> (js_error + unit) \<times> store \<times> query_cache \<times> store_op list" where
  "deletePath st queryCache pathId userId =
     (case deleteBody st queryCache pathId userId of
        (Inl err, st', cache', ops) \<Rightarrow> (Inl (rethrowWithContext err), st', cache', ops)
      | (Inr u, st', cache', ops) \<Rightarrow> (Inr u, st', cache', ops))"

text \<open>The two outcomes of a refused delete, as the caller sees them.\<close>

definition notAuthorized :: js_error where
  "notAuthorized =
     ErrorInstance ''Failed to delete learning path: You can only delete paths you created''"

definition notFound :: js_error where
  "notFound =
     ErrorInstance ''Failed to delete learning path: Learning path not found or already deleted''"

text \<open>A sample store holding the sample path, owned by "u1".\<close>

definition sampleStore :: store where
  "sampleStore = \<lparr> rows = Map.empty(''p1'' \<mapsto> samplePath), select_fault = NoFault,
                    delete_fault = NoFault \<rparr>"

section \<open>Topic knowledge base (pathGenerator.ts)\<close>

text \<open>
  The curated resources and modules of a topic. The fields that only feed the
  description texts (platform and difficulty of a resource, concepts and skills of a
  module, prerequisites and outcomes of a topic) are left out, as the descriptions are.
\<close>

record LearningResource =
  resource_title :: string
  resource_type :: content_type
  url :: "string option"
  duration :: real

record TopicModule =
  module_title :: string
  resources :: "LearningResource list"
  exercises :: "string list"
  assessments :: "string list"

record TopicStructure =
  category :: string
  subcategory :: string
  topic_learningType :: learning_type
  estimatedHours :: real
  modules :: "TopicModule list"

definition chessTopic :: TopicStructure where
  "chessTopic =
     \<lparr> category = ''strategy-games'',
       subcategory = ''board-games'',
       topic_learningType = Mixed,
       estimatedHours = 30,
       modules =
        [\<lparr> module_title = ''Chess Fundamentals'',
          resources =
            [\<lparr> resource_title = ''Chess.com Learn Chess Basics'',
               resource_type = Course,
               url = Some ''https://www.chess.com/learn-how-to-play-chess'',
               duration = 60 \<rparr>,
             \<lparr> resource_title = ''Chess Rules and Basics - ChessNetwork'',
               resource_type = Video,
               url = Some ''https://www.youtube.com/watch?v=OCSbzArwB10'',
               duration = 45 \<rparr>,
             \<lparr> resource_title = ''Lichess Learn Chess'',
               resource_type = Course,
               url = Some ''https://lichess.org/learn'',
               duration = 90 \<rparr>],
          exercises =
            [''Set up the chess board correctly 10 times'',
             ''Practice moving each piece type on an empty board'',
             ''Identify legal and illegal moves in given positions'',
             ''Practice writing moves in algebraic notation''],
          assessments =
            [''Chess rules quiz (20 questions)'',
             ''Piece movement accuracy test'',
             ''Notation reading exercise''] \<rparr>,
         \<lparr> module_title = ''Basic Tactics'',
          resources =
            [\<lparr> resource_title = ''Chess Tactics for Beginners'',
               resource_type = Article,
               url = Some ''https://www.chess.com/article/view/chess-tactics'',
               duration = 30 \<rparr>,
             \<lparr> resource_title = ''Chess Tactics Trainer'',
               resource_type = Course,
               url = Some ''https://www.chess.com/puzzles'',
               duration = 120 \<rparr>,
             \<lparr> resource_title = ''Lichess Puzzle Rush'',
               resource_type = Course,
               url = Some ''https://lichess.org/training'',
               duration = 90 \<rparr>],
          exercises =
            [''Solve 50 basic tactical puzzles'',
             ''Create 5 tactical positions from your games'',
             ''Practice finding tactics in master games'',
             ''Time-controlled tactical solving (3 minutes per puzzle)''],
          assessments =
            [''Tactical pattern recognition test'',
             ''Timed puzzle solving challenge'',
             ''Position analysis exercise''] \<rparr>,
         \<lparr> module_title = ''Opening Principles'',
          resources =
            [\<lparr> resource_title = ''Chess Opening Principles'',
               resource_type = Article,
               url = Some ''https://www.chess.com/article/view/chess-opening-principles'',
               duration = 25 \<rparr>,
             \<lparr> resource_title = ''Opening Explorer'',
               resource_type = Course,
               url = Some ''https://lichess.org/analysis'',
               duration = 60 \<rparr>,
             \<lparr> resource_title = ''Basic Chess Openings Explained'',
               resource_type = Video,
               url = Some ''https://www.youtube.com/watch?v=21L45Qo6EIY'',
               duration = 40 \<rparr>],
          exercises =
            [''Learn the Italian Game opening completely'',
             ''Practice the Queen's Gambit opening'',
             ''Analyze 10 master games focusing on opening play'',
             ''Build a basic opening repertoire for White and Black''],
          assessments =
            [''Opening principles quiz'',
             ''Opening repertoire presentation'',
             ''Game analysis focusing on opening phase''] \<rparr>] \<rparr>"

definition cookingTopic :: TopicStructure where
  "cookingTopic =
     \<lparr> category = ''life-skills'',
       subcategory = ''culinary'',
       topic_learningType = Practical,
       estimatedHours = 25,
       modules =
        [\<lparr> module_title = ''Kitchen Safety & Setup'',
          resources =
            [\<lparr> resource_title = ''Food Safety Basics'',
               resource_type = Article,
               url = Some ''https://www.foodsafety.gov/food-safety-charts/safe-minimum-cooking-temperatures'',
               duration = 20 \<rparr>,
             \<lparr> resource_title = ''Kitchen Setup and Organization'',
               resource_type = Video,
               url = Some ''https://www.youtube.com/watch?v=4ur5YQIbOSs'',
               duration = 15 \<rparr>,
             \<lparr> resource_title = ''Essential Kitchen Tools Guide'',
               resource_type = Article,
               url = Some ''https://www.seriouseats.com/basic-knife-skills'',
               duration = 25 \<rparr>],
          exercises =
            [''Organize your kitchen workspace for efficiency'',
             ''Create a food safety checklist for your kitchen'',
             ''Practice proper hand washing and sanitization'',
             ''Set up mise en place for a simple recipe''],
          assessments =
            [''Food safety knowledge quiz'',
             ''Kitchen organization evaluation'',
             ''Safety procedure demonstration''] \<rparr>,
         \<lparr> module_title = ''Knife Skills & Food Prep'',
          resources =
            [\<lparr> resource_title = ''Basic Knife Skills'',
               resource_type = Video,
               url = Some ''https://www.youtube.com/watch?v=G-Fg7l7G1zw'',
               duration = 30 \<rparr>,
             \<lparr> resource_title = ''Knife Skills Guide - Serious Eats'',
               resource_type = Article,
               url = Some ''https://www.seriouseats.com/basic-knife-skills'',
               duration = 20 \<rparr>,
             \<lparr> resource_title = ''Food Prep Techniques'',
               resource_type = Video,
               url = Some ''https://www.youtube.com/watch?v=nffGuGwCdZE'',
               duration = 25 \<rparr>],
          exercises =
            [''Practice julienne cuts on carrots'',
             ''Master dicing onions uniformly'',
             ''Learn to brunoise vegetables'',
             ''Prep ingredients for a complete meal efficiently''],
          assessments =
            [''Knife skills demonstration'',
             ''Cutting accuracy and speed test'',
             ''Prep efficiency evaluation''] \<rparr>] \<rparr>"

definition guitarTopic :: TopicStructure where
  "guitarTopic =
     \<lparr> category = ''music'',
       subcategory = ''instruments'',
       topic_learningType = Practical,
       estimatedHours = 40,
       modules =
        [\<lparr> module_title = ''Guitar Basics & Setup'',
          resources =
            [\<lparr> resource_title = ''Guitar Basics for Beginners'',
               resource_type = Video,
               url = Some ''https://www.youtube.com/watch?v=F5bqTVNXOLs'',
               duration = 45 \<rparr>,
             \<lparr> resource_title = ''JustinGuitar Beginner Course'',
               resource_type = Course,
               url = Some ''https://www.justinguitar.com/guitar-lessons/beginner-guitar-course-grade-1'',
               duration = 120 \<rparr>,
             \<lparr> resource_title = ''Guitar Tuning Guide'',
               resource_type = Article,
               url = Some ''https://www.fender.com/articles/how-to/how-to-tune-a-guitar'',
               duration = 15 \<rparr>],
          exercises =
            [''Practice holding the guitar in different positions'',
             ''Tune your guitar using multiple methods'',
             ''Learn the names of all strings and frets'',
             ''Set up a comfortable practice space''],
          assessments =
            [''Guitar anatomy quiz'',
             ''Tuning accuracy test'',
             ''Posture evaluation''] \<rparr>,
         \<lparr> module_title = ''First Chords & Strumming'',
          resources =
            [\<lparr> resource_title = ''Basic Guitar Chords'',
               resource_type = Video,
               url = Some ''https://www.youtube.com/watch?v=NGXSoVRDQTE'',
               duration = 30 \<rparr>,
             \<lparr> resource_title = ''Strumming Patterns for Beginners'',
               resource_type = Video,
               url = Some ''https://www.youtube.com/watch?v=oXerhIdTR8Y'',
               duration = 25 \<rparr>,
             \<lparr> resource_title = ''Ultimate Guitar Chord Chart'',
               resource_type = Article,
               url = Some ''https://www.ultimate-guitar.com/lessons/for_beginners/basic_guitar_chords.html'',
               duration = 20 \<rparr>],
          exercises =
            [''Master G, C, D, Em, and Am chords'',
             ''Practice 1-minute chord changes'',
             ''Learn basic down-up strumming pattern'',
             ''Play your first complete song''],
          assessments =
            [''Chord clarity evaluation'',
             ''Strumming rhythm test'',
             ''Song performance assessment''] \<rparr>] \<rparr>"

definition programmingTopic :: TopicStructure where
  "programmingTopic =
     \<lparr> category = ''technology'',
       subcategory = ''software-development'',
       topic_learningType = Practical,
       estimatedHours = 50,
       modules =
        [\<lparr> module_title = ''Programming Fundamentals'',
          resources =
            [\<lparr> resource_title = ''freeCodeCamp JavaScript Basics'',
               resource_type = Course,
               url = Some ''https://www.freecodecamp.org/learn/javascript-algorithms-and-data-structures/'',
               duration = 180 \<rparr>,
             \<lparr> resource_title = ''MDN JavaScript Guide'',
               resource_type = Article,
               url = Some ''https://developer.mozilla.org/en-US/docs/Web/JavaScript/Guide'',
               duration = 120 \<rparr>,
             \<lparr> resource_title = ''JavaScript Crash Course'',
               resource_type = Video,
               url = Some ''https://www.youtube.com/watch?v=hdI2bqOjy3c'',
               duration = 90 \<rparr>],
          exercises =
            [''Build a simple calculator'',
             ''Create a number guessing game'',
             ''Implement basic sorting algorithms'',
             ''Solve coding challenges on HackerRank''],
          assessments =
            [''Programming logic quiz'',
             ''Code review exercise'',
             ''Algorithm implementation test''] \<rparr>,
         \<lparr> module_title = ''HTML & CSS Mastery'',
          resources =
            [\<lparr> resource_title = ''freeCodeCamp Responsive Web Design'',
               resource_type = Course,
               url = Some ''https://www.freecodecamp.org/learn/responsive-web-design/'',
               duration = 150 \<rparr>,
             \<lparr> resource_title = ''CSS-Tricks Complete Guide to Flexbox'',
               resource_type = Article,
               url = Some ''https://css-tricks.com/snippets/css/a-guide-to-flexbox/'',
               duration = 30 \<rparr>,
             \<lparr> resource_title = ''HTML & CSS Crash Course'',
               resource_type = Video,
               url = Some ''https://www.youtube.com/watch?v=UB1O30fR-EE'',
               duration = 120 \<rparr>],
          exercises =
            [''Build a personal portfolio website'',
             ''Create responsive layouts using Flexbox'',
             ''Design a mobile-first website'',
             ''Implement CSS animations and transitions''],
          assessments =
            [''HTML semantic structure review'',
             ''CSS layout challenge'',
             ''Responsive design evaluation''] \<rparr>] \<rparr>"

definition photographyTopic :: TopicStructure where
  "photographyTopic =
     \<lparr> category = ''creative'',
       subcategory = ''visual-arts'',
       topic_learningType = Mixed,
       estimatedHours = 35,
       modules =
        [\<lparr> module_title = ''Camera Fundamentals'',
          resources =
            [\<lparr> resource_title = ''Photography Basics: The Complete Beginner's Guide'',
               resource_type = Article,
               url = Some ''https://www.photographylife.com/photography-basics'',
               duration = 45 \<rparr>,
             \<lparr> resource_title = ''Understanding Exposure'',
               resource_type = Video,
               url = Some ''https://www.youtube.com/watch?v=3_79_gdhvZc'',
               duration = 30 \<rparr>,
             \<lparr> resource_title = ''Camera Settings Explained'',
               resource_type = Article,
               url = Some ''https://digital-photography-school.com/camera-modes/'',
               duration = 25 \<rparr>],
          exercises =
            [''Practice manual exposure in different lighting'',
             ''Experiment with depth of field control'',
             ''Master focus techniques for moving subjects'',
             ''Create exposure comparison series''],
          assessments =
            [''Technical knowledge quiz'',
             ''Exposure accuracy evaluation'',
             ''Camera operation test''] \<rparr>] \<rparr>"

text \<open>The knowledge base, in insertion order.\<close>

definition topicDatabase :: "(string \<times> TopicStructure) list" where
  "topicDatabase =
     [(''chess'', chessTopic),
      (''cooking'', cookingTopic),
      (''guitar'', guitarTopic),
      (''programming'', programmingTopic),
      (''photography'', photographyTopic)]"

section \<open>Content synthesis (pathGenerator.ts)\<close>

datatype difficulty_choice = Beginner | Intermediate | Advanced

fun difficultyName :: "difficulty_choice \<Rightarrow> string" where
  "difficultyName Beginner = ''beginner''"
| "difficultyName Intermediate = ''intermediate''"
| "difficultyName Advanced = ''advanced''"

record GeneratePathRequest =
  request_query :: string
  request_userId :: string
  request_difficulty :: "difficulty_choice option"
  request_duration :: "real option"
  learningStyle :: "string option"
  goals :: "string list option"

text \<open>The generated document; its description, a text template, is not modelled.\<close>

record GeneratedPathStructure =
  generated_title :: string
  generated_topic :: string
  generated_difficulty_level :: string
  generated_estimated_duration :: real
  generated_tags :: "string list"
  nodes :: "GeneratedNode list"

text \<open>
  The two text helpers built on regular-expression replaces and on upper-casing are
  parameters of the model: what is proved holds whatever text they return.
\<close>

record text_helpers =
  extractMainTopic :: "string \<Rightarrow> string"
  capitalizeWords :: "string \<Rightarrow> string"

record detection =
  detectedTopic :: "TopicStructure option"
  topicKey :: "string option"
  detection_confidence :: real
  detection_category :: string

definition keywordMap :: "(string \<times> string list) list" where
  "keywordMap =
     [(''chess'', [''chess'', ''board game'', ''strategy game'', ''checkmate'', ''tactics'']),
      (''cooking'', [''cooking'', ''cook'', ''recipe'', ''kitchen'', ''food'', ''culinary'',
                     ''baking'', ''chef'']),
      (''guitar'', [''guitar'', ''music'', ''instrument'', ''strings'', ''chord'', ''acoustic'',
                    ''electric'']),
      (''programming'', [''programming'', ''coding'', ''web development'', ''javascript'',
                         ''html'', ''css'', ''software'', ''developer'']),
      (''photography'', [''photography'', ''photo'', ''camera'', ''picture'', ''image'', ''lens'',
                         ''exposure''])]"

text \<open>The first loop of \<open>detectTopic\<close>: the first key of the knowledge base in the query.\<close>

fun directMatch ::
  "string \<Rightarrow> (string \<times> TopicStructure) list \<Rightarrow> (string \<times> TopicStructure) option" where
  "directMatch lowerQuery [] = None"
| "directMatch lowerQuery ((key, tp) # rest) =
     (if str_includes lowerQuery key then Some (key, tp) else directMatch lowerQuery rest)"

text \<open>
  The nested loops over the keyword map: a keyword in the query returns the topic of its
  key when the knowledge base has it, and the scan goes on otherwise.
\<close>

fun scanKeywords ::
  "(string \<times> TopicStructure) list \<Rightarrow> string \<Rightarrow> string \<Rightarrow> string list
     \<Rightarrow> (string \<times> TopicStructure) option" where
  "scanKeywords db lowerQuery key [] = None"
| "scanKeywords db lowerQuery key (keyword # rest) =
     (if str_includes lowerQuery keyword
      then (case map_of db key of
              Some tp \<Rightarrow> Some (key, tp)
            | None \<Rightarrow> scanKeywords db lowerQuery key rest)
      else scanKeywords db lowerQuery key rest)"

fun scanKeywordMap ::
  "(string \<times> TopicStructure) list \<Rightarrow> string \<Rightarrow> (string \<times> string list) list
     \<Rightarrow> (string \<times> TopicStructure) option" where
  "scanKeywordMap db lowerQuery [] = None"
| "scanKeywordMap db lowerQuery ((key, kws) # rest) =
     (case scanKeywords db lowerQuery key kws of
        Some found \<Rightarrow> Some found
      | None \<Rightarrow> scanKeywordMap db lowerQuery rest)"

definition detectTopic :: "string \<Rightarrow> detection" where
  "detectTopic query =
     (let lowerQuery = toLowerCase query
      in case directMatch lowerQuery topicDatabase of
           Some (key, tp) \<Rightarrow>
             \<lparr> detectedTopic = Some tp, topicKey = Some key, detection_confidence = 9 / 10,
               detection_category = category tp \<rparr>
         | None \<Rightarrow>
             (case scanKeywordMap topicDatabase lowerQuery keywordMap of
                Some (key, tp) \<Rightarrow>
                  \<lparr> detectedTopic = Some tp, topicKey = Some key, detection_confidence = 8 / 10,
                    detection_category = category tp \<rparr>
              | None \<Rightarrow>
                  \<lparr> detectedTopic = None, topicKey = None, detection_confidence = 3 / 10,
                    detection_category = ''general'' \<rparr>))"

text \<open>\<open>x || d\<close> on an optional number: the default for \<open>undefined\<close> and for 0.\<close>

definition numberOr :: "real option \<Rightarrow> real \<Rightarrow> real" where
  "numberOr x d = (case x of None \<Rightarrow> d | Some v \<Rightarrow> if v = 0 then d else v)"

definition difficultyOrBeginner :: "difficulty_choice option \<Rightarrow> difficulty_choice" where
  "difficultyOrBeginner x = (case x of None \<Rightarrow> Beginner | Some d \<Rightarrow> d)"

definition selectModulesByDifficulty :: "'a list \<Rightarrow> string \<Rightarrow> 'a list" where
  "selectModulesByDifficulty ms level =
     (if level = ''beginner'' then take (min 3 (length ms)) ms
      else if level = ''intermediate'' then take (min 5 (length ms)) ms
      else ms)"

text \<open>
  One round of the module loop of \<open>generateStructuredPath\<close>, on the nodes pushed so far
  and the running \<open>orderIndex\<close>: a node per resource, then the practice node if the
  module has exercises, then the assessment node if it has assessments.
\<close>

definition pushResource ::
  "LearningResource \<Rightarrow> GeneratedNode list \<times> int \<Rightarrow> GeneratedNode list \<times> int" where
  "pushResource resource st =
     (case st of (ns, orderIndex) \<Rightarrow>
        (ns @ [\<lparr> node_title = resource_title resource,
                  node_content_type = resource_type resource,
                  resource_url = url resource,
                  node_estimated_duration = duration resource,
                  order_index = orderIndex,
                  prerequisites = [],
                  is_required = True \<rparr>],
         orderIndex + 1))"

definition pushExercise ::
  "real \<Rightarrow> TopicModule \<Rightarrow> GeneratedNode list \<times> int \<Rightarrow> GeneratedNode list \<times> int" where
  "pushExercise moduleDuration m st =
     (case st of (ns, orderIndex) \<Rightarrow>
        if length (exercises m) > 0
        then (ns @ [\<lparr> node_title = module_title m @ '' - Hands-On Practice'',
                       node_content_type = Exercise,
                       resource_url = None,
                       node_estimated_duration = of_int \<lceil>moduleDuration * (3 / 10)\<rceil>,
                       order_index = orderIndex,
                       prerequisites = [],
                       is_required = True \<rparr>],
              orderIndex + 1)
        else (ns, orderIndex))"

definition pushAssessment ::
  "real \<Rightarrow> TopicModule \<Rightarrow> GeneratedNode list \<times> int \<Rightarrow> GeneratedNode list \<times> int" where
  "pushAssessment moduleDuration m st =
     (case st of (ns, orderIndex) \<Rightarrow>
        if length (assessments m) > 0
        then (ns @ [\<lparr> node_title = module_title m @ '' - Knowledge Assessment'',
                       node_content_type = Exercise,
                       resource_url = None,
                       node_estimated_duration = of_int \<lceil>moduleDuration * (2 / 10)\<rceil>,
                       order_index = orderIndex,
                       prerequisites = [],
                       is_required = False \<rparr>],
              orderIndex + 1)
        else (ns, orderIndex))"

definition emitModule ::
  "real \<Rightarrow> TopicModule \<Rightarrow> GeneratedNode list \<times> int \<Rightarrow> GeneratedNode list \<times> int" where
  "emitModule moduleDuration m st =
     pushAssessment moduleDuration m
       (pushExercise moduleDuration m (fold pushResource (resources m) st))"

definition mapCategoryToTopic :: "string \<Rightarrow> string" where
  "mapCategoryToTopic cat =
     (case map_of [(''strategy-games'', ''design''), (''life-skills'', ''business''),
                   (''music'', ''design''), (''creative'', ''design''),
                   (''technology'', ''web-development''), (''science'', ''data-science''),
                   (''business'', ''business''), (''general'', ''business'')] cat of
        Some t \<Rightarrow> t
      | None \<Rightarrow> ''business'')"

fun titlePrefix :: "difficulty_choice \<Rightarrow> string" where
  "titlePrefix Beginner = ''Complete Beginner's Guide to''"
| "titlePrefix Intermediate = ''Intermediate''"
| "titlePrefix Advanced = ''Advanced Mastery of''"

definition generateTitle :: "text_helpers \<Rightarrow> string \<Rightarrow> string \<Rightarrow> difficulty_choice \<Rightarrow> string" where
  "generateTitle txt query key level =
     titlePrefix level @ '' '' @ capitalizeWords txt key"

text \<open>\<open>s.split(' ')\<close>: the pieces between single spaces.\<close>

fun split_space :: "string \<Rightarrow> string list" where
  "split_space [] = [[]]"
| "split_space (c # cs) =
     (if c = CHR '' '' then [] # split_space cs
      else (case split_space cs of
              [] \<Rightarrow> [[c]]
            | w # ws \<Rightarrow> (c # w) # ws))"

definition learningTypeName :: "learning_type \<Rightarrow> string" where
  "learningTypeName t =
     (case t of Practical \<Rightarrow> ''practical'' | Theoretical \<Rightarrow> ''theoretical'' | Mixed \<Rightarrow> ''mixed'')"

definition queryWordTags :: "string \<Rightarrow> string list \<Rightarrow> string list" where
  "queryWordTags query tags =
     fold (\<lambda>w acc. if length w > 3 \<and> \<not> List.member [''learn'', ''how'', ''guide'', ''tutorial''] w
                    then set_add w acc else acc)
       (split_space (toLowerCase query)) tags"

definition generateTags :: "string \<Rightarrow> TopicStructure \<Rightarrow> string \<Rightarrow> string list" where
  "generateTags key tp query =
     take 8 (queryWordTags query
       (fold set_add [key, category tp, subcategory tp, learningTypeName (topic_learningType tp),
                      ''structured'', ''resources'', ''practical''] []))"

definition generateStructuredPath ::
  "text_helpers \<Rightarrow> TopicStructure \<Rightarrow> string \<Rightarrow> GeneratePathRequest \<Rightarrow> GeneratedPathStructure" where
  "generateStructuredPath txt tp key request =
     (let level = difficultyOrBeginner (request_difficulty request);
          dur = numberOr (request_duration request) (estimatedHours tp);
          selectedModules = selectModulesByDifficulty (modules tp) (difficultyName level);
          moduleDuration = of_int \<lceil>dur / real (length selectedModules)\<rceil>;
          (ns, orderIndex) = fold (emitModule moduleDuration) selectedModules ([], 1)
      in \<lparr> generated_title = generateTitle txt (request_query request) key level,
           generated_topic = mapCategoryToTopic (category tp),
           generated_difficulty_level = difficultyName level,
           generated_estimated_duration = dur,
           generated_tags = generateTags key tp (request_query request),
           nodes = ns \<rparr>)"

text \<open>\<open>s.replace(/\s+/g, '+')\<close>: every maximal run of white space becomes one plus sign.\<close>

fun plusForSpaces :: "string \<Rightarrow> string" where
  "plusForSpaces [] = []"
| "plusForSpaces (c # cs) =
     (if isSpace c
      then (case cs of
              [] \<Rightarrow> [CHR ''+'']
            | d # ds \<Rightarrow> if isSpace d then plusForSpaces cs else CHR ''+'' # plusForSpaces cs)
      else c # plusForSpaces cs)"

record custom_module =
  custom_title :: string
  custom_type :: content_type
  custom_url :: "string option"

definition generateCustomModulesWithResources ::
  "text_helpers \<Rightarrow> string \<Rightarrow> string \<Rightarrow> custom_module list" where
  "generateCustomModulesWithResources txt mainTopic level =
     (let capitalizedTopic = capitalizeWords txt mainTopic;
          searchTopic = plusForSpaces (toLowerCase mainTopic)
      in [\<lparr> custom_title = capitalizedTopic @ '' Fundamentals'',
            custom_type = Article,
            custom_url = Some (''https://www.google.com/search?q='' @ searchTopic
                                @ ''+fundamentals+guide+tutorial'') \<rparr>,
          \<lparr> custom_title = capitalizedTopic @ '' Video Tutorial'',
            custom_type = Video,
            custom_url = Some (''https://www.youtube.com/results?search_query='' @ searchTopic
                                @ ''+tutorial+'' @ level) \<rparr>,
          \<lparr> custom_title = capitalizedTopic @ '' Hands-On Practice'',
            custom_type = Exercise,
            custom_url = None \<rparr>,
          \<lparr> custom_title = capitalizedTopic @ '' Advanced Resources'',
            custom_type = Course,
            custom_url = Some (''https://www.coursera.org/search?query='' @ searchTopic
                                @ ''&'') \<rparr>])"

fun customTitlePrefix :: "difficulty_choice \<Rightarrow> string" where
  "customTitlePrefix Beginner = ''Learn''"
| "customTitlePrefix Intermediate = ''Master''"
| "customTitlePrefix Advanced = ''Advanced''"

definition generateCustomTitle :: "text_helpers \<Rightarrow> string \<Rightarrow> difficulty_choice \<Rightarrow> string" where
  "generateCustomTitle txt query level =
     customTitlePrefix level @ '' '' @ capitalizeWords txt (extractMainTopic txt query)"

definition generateCustomTags :: "text_helpers \<Rightarrow> string \<Rightarrow> string \<Rightarrow> string list" where
  "generateCustomTags txt query cat =
     take 8 (queryWordTags query
       (fold set_add [cat, ''custom'', ''structured'', ''resources'',
                      toLowerCase (extractMainTopic txt query)] []))"

text \<open>
  \<open>generateCustomPath\<close>: \<open>forEach((module, index) => ...)\<close> pushes one node per module,
  numbered \<open>index + 1\<close>.
\<close>

definition generateCustomPath ::
  "text_helpers \<Rightarrow> GeneratePathRequest \<Rightarrow> string \<Rightarrow> GeneratedPathStructure" where
  "generateCustomPath txt request cat =
     (let level = difficultyOrBeginner (request_difficulty request);
          dur = numberOr (request_duration request) 20;
          mainTopic = extractMainTopic txt (request_query request);
          ms = generateCustomModulesWithResources txt mainTopic (difficultyName level);
          ns = map (\<lambda>(index, m).
                      \<lparr> node_title = custom_title m,
                        node_content_type = custom_type m,
                        resource_url = custom_url m,
                        node_estimated_duration = of_int \<lceil>dur / real (length ms)\<rceil>,
                        order_index = int index + 1,
                        prerequisites = [],
                        is_required = True \<rparr>)
                 (enumerate 0 ms)
      in \<lparr> generated_title = generateCustomTitle txt (request_query request) level,
           generated_topic = mapCategoryToTopic cat,
           generated_difficulty_level = difficultyName level,
           generated_estimated_duration = dur,
           generated_tags = generateCustomTags txt (request_query request) cat,
           nodes = ns \<rparr>)"

definition generateFallbackPath :: "text_helpers \<Rightarrow> GeneratePathRequest \<Rightarrow> GeneratedPathStructure" where
  "generateFallbackPath txt request =
     (let level = difficultyOrBeginner (request_difficulty request);
          dur = numberOr (request_duration request) 15;
          mainTopic = extractMainTopic txt (request_query request);
          searchTopic = plusForSpaces (toLowerCase mainTopic)
      in \<lparr> generated_title = ''Learn '' @ capitalizeWords txt mainTopic,
           generated_topic = ''business'',
           generated_difficulty_level = difficultyName level,
           generated_estimated_duration = dur,
           generated_tags = [toLowerCase mainTopic, ''custom'', difficultyName level,
                             ''resources''],
           nodes =
             [\<lparr> node_title = capitalizeWords txt mainTopic @ '' Fundamentals'',
                node_content_type = Article,
                resource_url = Some (''https://www.google.com/search?q='' @ searchTopic
                                      @ ''+fundamentals+guide+tutorial''),
                node_estimated_duration = of_int \<lceil>dur * (4 / 10)\<rceil>,
                order_index = 1,
                prerequisites = [],
                is_required = True \<rparr>,
              \<lparr> node_title = capitalizeWords txt mainTopic @ '' Video Learning'',
                node_content_type = Video,
                resource_url = Some (''https://www.youtube.com/results?search_query=''
                                      @ searchTopic @ ''+tutorial+'' @ difficultyName level),
                node_estimated_duration = of_int \<lceil>dur * (4 / 10)\<rceil>,
                order_index = 2,
                prerequisites = [],
                is_required = True \<rparr>,
              \<lparr> node_title = capitalizeWords txt mainTopic @ '' Practical Application'',
                node_content_type = Exercise,
                resource_url = None,
                node_estimated_duration = of_int \<lfloor>dur * (2 / 10)\<rfloor>,
                order_index = 3,
                prerequisites = [],
                is_required = True \<rparr>] \<rparr>)"

text \<open>
  The \<open>try\<close> block of \<open>generatePath\<close> (\<open>Inl\<close> is a value thrown inside it) and
  \<open>generatePath\<close> itself, whose \<open>catch\<close> block returns the fallback path. The
  structured generator is called with \<open>topicKey!\<close>: a null key would throw a
  \<open>TypeError\<close> when the title is composed.
\<close>

definition generatePathBody ::
  "text_helpers \<Rightarrow> GeneratePathRequest \<Rightarrow> js_error + GeneratedPathStructure" where
  "generatePathBody txt request =
     (let det = detectTopic (request_query request)
      in case detectedTopic det of
           Some tp \<Rightarrow>
             if detection_confidence det > 7 / 10
             then (case topicKey det of
                     Some key \<Rightarrow> Inr (generateStructuredPath txt tp key request)
                   | None \<Rightarrow> Inl (ErrorInstance ''TypeError''))
             else Inr (generateCustomPath txt request (detection_category det))
         | None \<Rightarrow> Inr (generateCustomPath txt request (detection_category det)))"

definition generatePath :: "text_helpers \<Rightarrow> GeneratePathRequest \<Rightarrow> GeneratedPathStructure" where
  "generatePath txt request =
     (case generatePathBody txt request of
        Inr p \<Rightarrow> p
      | Inl err \<Rightarrow> generateFallbackPath txt request)"

text \<open>
  The nodes of a path are numbered from 1 without gaps, in list order, and there is at
  least one.
\<close>

definition numbered :: "GeneratedNode list \<Rightarrow> bool" where
  "numbered ns = (ns \<noteq> [] \<and> map order_index ns = [1..int (length ns)])"

text \<open>A sample request and sample text helpers (the identity).\<close>

definition sampleRequest :: GeneratePathRequest where
  "sampleRequest =
     \<lparr> request_query = ''learn chess'', request_userId = ''u1'',
       request_difficulty = None, request_duration = Some 12,
       learningStyle = None, goals = None \<rparr>"

definition sampleText :: text_helpers where
  "sampleText = \<lparr> extractMainTopic = (\<lambda>q. q), capitalizeWords = (\<lambda>t. t) \<rparr>"

text \<open>
  The invariant of the module loop: the nodes pushed so far are numbered from 1 without
  gaps and \<open>orderIndex\<close> is the next number.
\<close>

definition counted :: "GeneratedNode list \<times> int \<Rightarrow> bool" where
  "counted st = (map order_index (fst st) = [1..int (length (fst st))]
                 \<and> snd st = int (length (fst st)) + 1)"

text \<open>A topic whose first module has a curated resource.\<close>

definition stocked :: "TopicStructure \<Rightarrow> bool" where
  "stocked tp = (case modules tp of [] \<Rightarrow> False | m # ms \<Rightarrow> resources m \<noteq> [])"

section \<open>Properties of the query intent parser\<close>

lemma detectTopicMapping_confidence:
  "snd (detectTopicMapping q tbl) = 5 / 10 \<or> snd (detectTopicMapping q tbl) = 8 / 10"
  by (induction q tbl rule: detectTopicMapping.induct) simp_all

lemma detectDifficulty_confidence:
  "snd (detectDifficulty q c) = c \<or> snd (detectDifficulty q c) = c + 1 / 10"
  by (simp add: detectDifficulty_def)


lemma parseQueryIntent_confidence:
  "confidence (parseQueryIntent q) =
     min (snd (detectDifficulty (toLowerCase q)
                 (snd (detectTopicMapping (toLowerCase q) topicMappings)))) 1"
  by (simp add: parseQueryIntent_def Let_def split: prod.splits)


text \<open>
  C8: for the query "advanced machine learning deep dive" the heuristic parser returns
  topic "ai-ml", difficulty "advanced" and an estimated duration of 50.
\<close>

theorem parseQueryIntent_scenario_A:
  "topic (parseQueryIntent ''advanced machine learning deep dive'') = ''ai-ml''
   \<and> difficulty (parseQueryIntent ''advanced machine learning deep dive'') = ''advanced''
   \<and> estimatedDuration (parseQueryIntent ''advanced machine learning deep dive'') = 50"
  by code_simp

text \<open>
  C9: for every query the confidence of the parsed intent lies between 0 and 1.
\<close>

theorem parseQueryIntent_confidence_range:
  "0 \<le> confidence (parseQueryIntent q) \<and> confidence (parseQueryIntent q) \<le> 1"
proof -
  let ?c0 = "snd (detectTopicMapping (toLowerCase q) topicMappings)"
  let ?c1 = "snd (detectDifficulty (toLowerCase q) ?c0)"
  have c0: "?c0 = 5 / 10 \<or> ?c0 = 8 / 10"
    by (rule detectTopicMapping_confidence)
  have c1: "?c1 = ?c0 \<or> ?c1 = ?c0 + 1 / 10"
    by (rule detectDifficulty_confidence)
  from c0 c1 have "0 \<le> ?c1" by auto
  then show ?thesis
    by (simp add: parseQueryIntent_confidence)
qed


section \<open>Properties of the relevance score\<close>

lemma fold_bonus:
  "fold (\<lambda>k sc. if P k then rnd (sc + w) else sc) ks s
     = addRepeatedly rnd w (length (filter P ks)) s"
  by (induction ks arbitrary: s) simp_all

lemma calculateRelevanceScore_rounded:
  "calculateRelevanceScore rnd path intent query =
     roundedSum rnd
       (str_includes (toLowerCase (path_title path)) (toLowerCase query))
       (length (filter (\<lambda>k. str_includes (toLowerCase (path_title path)) k) (keywords' intent)))
       (str_includes (toLowerCase (path_description path)) (toLowerCase query))
       (length (filter (\<lambda>k. str_includes (toLowerCase (path_description path)) k)
                  (keywords' intent)))
       (path_topic path = topic intent)
       (difficulty_level path = difficulty intent)
       \<bar>rnd (path_estimated_duration path - estimatedDuration intent)\<bar>
       (completion_rate path)
       (total_nodes path)
       (case path_tags path of
          None \<Rightarrow> 0
        | Some tags \<Rightarrow>
            length (filter (\<lambda>k. list_ex (\<lambda>tag. str_includes (toLowerCase tag) k) tags)
                      (keywords' intent)))"
proof (cases "path_tags path")
  case None
  then show ?thesis
    by (simp add: calculateRelevanceScore_def roundedSum_def Let_def fold_bonus)
next
  case (Some tags)
  have tagfold: "fold (\<lambda>keyword sc.
                     if list_ex (\<lambda>tag. str_includes (toLowerCase tag) keyword) tags
                     then rnd (sc + 1) else sc) ks s
                 = addRepeatedly rnd 1
                     (length (filter (\<lambda>k. list_ex (\<lambda>tag. str_includes (toLowerCase tag) k) tags)
                                ks)) s" for ks s
    by (rule fold_bonus)
  from Some show ?thesis
    by (simp add: calculateRelevanceScore_def roundedSum_def Let_def fold_bonus tagfold)
qed

lemma addRepeatedly_exact: "addRepeatedly exactArithmetic w n s = s + w * real n"
  by (induction n arbitrary: s) (simp_all add: exactArithmetic_def algebra_simps)

lemma roundedSum_exact:
  "roundedSum exactArithmetic tq tk dq dk tm dm dd cr tn tg =
     (if tq then 10 else 0) + 5 * real tk + (if dq then 5 else 0) + 2 * real dk
     + (if tm then 8 else 0) + (if dm then 3 else 0) + max 0 (5 - dd / 10) + 2 * cr
     + min (tn / 10) 3 + real tg"
  by (simp add: roundedSum_def Let_def addRepeatedly_exact) (simp add: exactArithmetic_def)

lemma rounding_exactArithmetic: "rounding exactArithmetic"
  by (simp add: rounding_def exactArithmetic_def mono_def)

lemma rnd_mono: "rounding rnd \<Longrightarrow> x \<le> y \<Longrightarrow> rnd x \<le> rnd y"
  by (simp add: rounding_def mono_def)

lemma rnd_idem: "rounding rnd \<Longrightarrow> rnd (rnd x) = rnd x"
  by (simp add: rounding_def)

lemma rnd_zero:
  assumes "rounding rnd"
  shows "rnd 0 = 0"
proof -
  have "rnd (- 0) = - rnd 0"
    using assms unfolding rounding_def by blast
  then show ?thesis by simp
qed

lemma rnd_abs:
  assumes r: "rounding rnd"
  shows "\<bar>rnd x\<bar> = rnd \<bar>x\<bar>"
proof (cases "0 \<le> x")
  case True
  then have "0 \<le> rnd x"
    using rnd_mono [OF r, of 0 x] by (simp add: rnd_zero [OF r])
  with True show ?thesis by simp
next
  case False
  then have neg: "x \<le> 0" by simp
  then have "rnd x \<le> 0"
    using rnd_mono [OF r, of x 0] by (simp add: rnd_zero [OF r])
  moreover have "rnd (- x) = - rnd x"
    using r unfolding rounding_def by blast
  ultimately show ?thesis
    using neg by (simp add: abs_if rnd_zero [OF r])
qed

lemma addRepeatedly_outer:
  "addRepeatedly rnd w (Suc n) s = rnd (addRepeatedly rnd w n s + w)"
  by (induction n arbitrary: s) simp_all

lemma addRepeatedly_fixed:
  "rounding rnd \<Longrightarrow> rnd s = s \<Longrightarrow> rnd (addRepeatedly rnd w n s) = addRepeatedly rnd w n s"
  by (cases n) (simp_all add: addRepeatedly_outer rnd_idem del: addRepeatedly.simps(2))

lemma addRepeatedly_mono_start:
  "rounding rnd \<Longrightarrow> s \<le> s' \<Longrightarrow> addRepeatedly rnd w n s \<le> addRepeatedly rnd w n s'"
  by (induction n arbitrary: s s') (simp_all add: rnd_mono)

lemma addRepeatedly_grows:
  assumes r: "rounding rnd" and "0 \<le> w" and "rnd s = s" and "n \<le> n'"
  shows "addRepeatedly rnd w n s \<le> addRepeatedly rnd w n' s"
  using assms(4)
proof (induction n' rule: dec_induct)
  case base
  show ?case by simp
next
  case (step m)
  have fixed: "rnd (addRepeatedly rnd w m s) = addRepeatedly rnd w m s"
    using r assms(3) by (rule addRepeatedly_fixed)
  have "addRepeatedly rnd w m s \<le> rnd (addRepeatedly rnd w m s + w)"
    using rnd_mono [OF r, of "addRepeatedly rnd w m s" "addRepeatedly rnd w m s + w"]
      assms(2) fixed
    by simp
  with step.IH show ?case
    by (simp add: addRepeatedly_outer del: addRepeatedly.simps(2))
qed

lemma addRepeatedly_mono:
  assumes r: "rounding rnd" and "0 \<le> w" and "rnd s' = s'" and "s \<le> s'" and "n \<le> n'"
  shows "addRepeatedly rnd w n s \<le> addRepeatedly rnd w n' s'"
proof -
  have "addRepeatedly rnd w n s \<le> addRepeatedly rnd w n s'"
    using r assms(4) by (rule addRepeatedly_mono_start)
  also have "\<dots> \<le> addRepeatedly rnd w n' s'"
    using r assms(2,3,5) by (rule addRepeatedly_grows)
  finally show ?thesis .
qed

lemma bonus_mono:
  assumes r: "rounding rnd" and "0 \<le> w" and "rnd s' = s'" and "s \<le> s'" and "b \<longrightarrow> b'"
  shows "(if b then rnd (s + w) else s) \<le> (if b' then rnd (s' + w) else s')"
proof -
  have "s' \<le> rnd (s' + w)"
    using rnd_mono [OF r, of s' "s' + w"] assms(2,3) by simp
  moreover have "rnd (s + w) \<le> rnd (s' + w)"
    using assms(4) by (simp add: rnd_mono [OF r])
  ultimately show ?thesis
    using assms(4,5) by auto
qed

lemma bonus_fixed:
  "rounding rnd \<Longrightarrow> rnd s = s
     \<Longrightarrow> rnd (if b then rnd (s + w) else s) = (if b then rnd (s + w) else s)"
  by (simp add: rnd_idem)

lemma roundedSum_mono:
  assumes r: "rounding rnd"
      and tq: "tq \<longrightarrow> tq'" and tk: "tk \<le> tk'" and dq: "dq \<longrightarrow> dq'" and dk: "dk \<le> dk'"
      and tm: "tm \<longrightarrow> tm'" and dm: "dm \<longrightarrow> dm'" and dd: "dd' \<le> dd"
      and cr: "cr \<le> cr'" and tn: "tn \<le> tn'" and tg: "tg \<le> tg'"
  shows "roundedSum rnd tq tk dq dk tm dm dd cr tn tg
           \<le> roundedSum rnd tq' tk' dq' dk' tm' dm' dd' cr' tn' tg'"
proof -
  define s1 where "s1 = (if tq then rnd (0 + 10) else 0)"
  define s1' where "s1' = (if tq' then rnd (0 + 10) else 0)"
  define s2 where "s2 = addRepeatedly rnd 5 tk s1"
  define s2' where "s2' = addRepeatedly rnd 5 tk' s1'"
  define s3 where "s3 = (if dq then rnd (s2 + 5) else s2)"
  define s3' where "s3' = (if dq' then rnd (s2' + 5) else s2')"
  define s4 where "s4 = addRepeatedly rnd 2 dk s3"
  define s4' where "s4' = addRepeatedly rnd 2 dk' s3'"
  define s5 where "s5 = (if tm then rnd (s4 + 8) else s4)"
  define s5' where "s5' = (if tm' then rnd (s4' + 8) else s4')"
  define s6 where "s6 = (if dm then rnd (s5 + 3) else s5)"
  define s6' where "s6' = (if dm' then rnd (s5' + 3) else s5')"
  define s7 where "s7 = rnd (s6 + max 0 (rnd (5 - rnd (dd / 10))))"
  define s7' where "s7' = rnd (s6' + max 0 (rnd (5 - rnd (dd' / 10))))"
  define s8 where "s8 = rnd (s7 + rnd (cr * 2))"
  define s8' where "s8' = rnd (s7' + rnd (cr' * 2))"
  define s9 where "s9 = rnd (s8 + min (rnd (tn / 10)) 3)"
  define s9' where "s9' = rnd (s8' + min (rnd (tn' / 10)) 3)"
  note mono = rnd_mono [OF r]
  have f0: "rnd (0::real) = 0" by (rule rnd_zero [OF r])
  have l1: "s1 \<le> s1'" unfolding s1_def s1'_def
    using bonus_mono [OF r, of 10 0 0 tq tq'] tq f0 by simp
  have f1: "rnd s1' = s1'" unfolding s1'_def by (simp add: rnd_idem [OF r] f0)
  have l2: "s2 \<le> s2'" unfolding s2_def s2'_def
    using r f1 l1 tk by (intro addRepeatedly_mono) simp_all
  have f2: "rnd s2' = s2'" unfolding s2'_def using r f1 by (rule addRepeatedly_fixed)
  have l3: "s3 \<le> s3'" unfolding s3_def s3'_def
    using r f2 l2 dq by (intro bonus_mono) simp_all
  have f3: "rnd s3' = s3'" unfolding s3'_def using r f2 by (rule bonus_fixed)
  have l4: "s4 \<le> s4'" unfolding s4_def s4'_def
    using r f3 l3 dk by (intro addRepeatedly_mono) simp_all
  have f4: "rnd s4' = s4'" unfolding s4'_def using r f3 by (rule addRepeatedly_fixed)
  have l5: "s5 \<le> s5'" unfolding s5_def s5'_def
    using r f4 l4 tm by (intro bonus_mono) simp_all
  have f5: "rnd s5' = s5'" unfolding s5'_def using r f4 by (rule bonus_fixed)
  have l6: "s6 \<le> s6'" unfolding s6_def s6'_def
    using r f5 l5 dm by (intro bonus_mono) simp_all
  have "rnd (dd' / 10) \<le> rnd (dd / 10)"
    using dd by (intro mono) simp
  then have "rnd (5 - rnd (dd / 10)) \<le> rnd (5 - rnd (dd' / 10))"
    by (intro mono) simp
  then have "max 0 (rnd (5 - rnd (dd / 10))) \<le> max 0 (rnd (5 - rnd (dd' / 10)))"
    by simp
  with l6 have l7: "s7 \<le> s7'" unfolding s7_def s7'_def
    by (intro mono) simp
  have "rnd (cr * 2) \<le> rnd (cr' * 2)"
    using cr by (intro mono) simp
  with l7 have l8: "s8 \<le> s8'" unfolding s8_def s8'_def
    by (intro mono) simp
  have "rnd (tn / 10) \<le> rnd (tn' / 10)"
    using tn by (intro mono) simp
  then have "min (rnd (tn / 10)) 3 \<le> min (rnd (tn' / 10)) 3"
    by simp
  with l8 have l9: "s9 \<le> s9'" unfolding s9_def s9'_def
    by (intro mono) simp
  have f9: "rnd s9' = s9'" unfolding s9'_def by (rule rnd_idem [OF r])
  have lhs: "roundedSum rnd tq tk dq dk tm dm dd cr tn tg = addRepeatedly rnd 1 tg s9"
    unfolding roundedSum_def Let_def s1_def s2_def s3_def s4_def s5_def s6_def s7_def s8_def
      s9_def by (rule refl)
  have rhs: "roundedSum rnd tq' tk' dq' dk' tm' dm' dd' cr' tn' tg' = addRepeatedly rnd 1 tg' s9'"
    unfolding roundedSum_def Let_def s1'_def s2'_def s3'_def s4'_def s5'_def s6'_def s7'_def
      s8'_def s9'_def by (rule refl)
  have "addRepeatedly rnd 1 tg s9 \<le> addRepeatedly rnd 1 tg' s9'"
    using r f9 l9 tg by (intro addRepeatedly_mono) simp_all
  then show ?thesis
    by (simp only: lhs rhs)
qed

text \<open>
  C5, as the claim states it, fails: with the query "CHESS" and no keywords, the raw
  query is not a substring of the title "Chess Openings", so the specified sum gives no
  title bonus and is 17, while the code compares lower-cased texts, adds 10 and returns
  27. Every intermediate result at this input is an integer, which double arithmetic
  computes exactly, so the rounding plays no part here.
\<close>

theorem score_spec_counterexample:
  "calculateRelevanceScore exactArithmetic samplePath (sampleIntent\<lparr> keywords' := [] \<rparr>) ''CHESS''
     = 27
   \<and> score_spec samplePath (sampleIntent\<lparr> keywords' := [] \<rparr>) ''CHESS'' = 17
   \<and> calculateRelevanceScore exactArithmetic samplePath (sampleIntent\<lparr> keywords' := [] \<rparr>)
         ''CHESS''
       \<noteq> score_spec samplePath (sampleIntent\<lparr> keywords' := [] \<rparr>) ''CHESS''"
  by code_simp

text \<open>
  C5, amended: the score is the weighted sum of the factors with the matching the code
  performs (case folded on the side of the catalog entry and of the query), added up in
  double arithmetic from left to right, the result of every addition, subtraction,
  multiplication and division rounded to a double: 10 for the lower-cased query in the
  lower-cased title, 5 per keyword in the lower-cased title, 5 for the lower-cased query
  in the lower-cased description, 2 per keyword in the lower-cased description, 8 for an
  equal topic, 3 for an equal difficulty, max(0, 5 - |duration difference| / 10), twice
  the completion rate, min(node count / 10, 3), and 1 per keyword contained in some
  lower-cased tag (nothing when the tag list is null). Where no operation rounds, the
  score is the exact value of that sum; otherwise it can differ from the exact value by
  the rounding of the operations. Being a function of its arguments, the score is
  deterministic.
\<close>

theorem calculateRelevanceScore_weighted_sum:
  "calculateRelevanceScore rnd path intent query =
     roundedSum rnd
       (str_includes (toLowerCase (path_title path)) (toLowerCase query))
       (length (filter (\<lambda>k. str_includes (toLowerCase (path_title path)) k) (keywords' intent)))
       (str_includes (toLowerCase (path_description path)) (toLowerCase query))
       (length (filter (\<lambda>k. str_includes (toLowerCase (path_description path)) k)
                  (keywords' intent)))
       (path_topic path = topic intent)
       (difficulty_level path = difficulty intent)
       \<bar>rnd (path_estimated_duration path - estimatedDuration intent)\<bar>
       (completion_rate path)
       (total_nodes path)
       (case path_tags path of
          None \<Rightarrow> 0
        | Some tags \<Rightarrow>
            length (filter (\<lambda>k. list_ex (\<lambda>tag. str_includes (toLowerCase tag) k) tags)
                      (keywords' intent)))
   \<and> calculateRelevanceScore exactArithmetic path intent query =
       (if str_includes (toLowerCase (path_title path)) (toLowerCase query) then 10 else 0)
       + 5 * real (length (filter (\<lambda>k. str_includes (toLowerCase (path_title path)) k)
                            (keywords' intent)))
       + (if str_includes (toLowerCase (path_description path)) (toLowerCase query) then 5 else 0)
       + 2 * real (length (filter (\<lambda>k. str_includes (toLowerCase (path_description path)) k)
                            (keywords' intent)))
       + (if path_topic path = topic intent then 8 else 0)
       + (if difficulty_level path = difficulty intent then 3 else 0)
       + max 0 (5 - \<bar>path_estimated_duration path - estimatedDuration intent\<bar> / 10)
       + 2 * completion_rate path
       + min (total_nodes path / 10) 3
       + (case path_tags path of
            None \<Rightarrow> 0
          | Some tags \<Rightarrow>
              real (length (filter (\<lambda>k. list_ex (\<lambda>tag. str_includes (toLowerCase tag) k) tags)
                              (keywords' intent))))"
proof -
  have tags: "real (case path_tags path of
                      None \<Rightarrow> 0
                    | Some tags \<Rightarrow>
                        length (filter (\<lambda>k. list_ex (\<lambda>tag. str_includes (toLowerCase tag) k) tags)
                                  (keywords' intent)))
              = (case path_tags path of
                   None \<Rightarrow> 0
                 | Some tags \<Rightarrow>
                     real (length (filter (\<lambda>k. list_ex (\<lambda>tag. str_includes (toLowerCase tag) k)
                                                 tags)
                                     (keywords' intent))))"
    by (cases "path_tags path") simp_all
  have exact: "\<bar>exactArithmetic (path_estimated_duration path - estimatedDuration intent)\<bar>
                 = \<bar>path_estimated_duration path - estimatedDuration intent\<bar>"
    by (simp add: exactArithmetic_def)
  show ?thesis
    by (simp only: calculateRelevanceScore_rounded roundedSum_exact tags exact simp_thms)
qed

text \<open>
  C6: the score is monotone in its factors. If an input is at least as good as another
  on every factor (a query or keyword match that holds still holds, no fewer keywords
  matched in title, description and tags, topic and difficulty matches kept, a duration
  difference no larger, completion rate and node count no smaller), its score is no
  smaller; raising a single factor with the others unchanged is a special case. This
  holds of the score as double arithmetic computes it, for every rounding that is
  monotone, idempotent and symmetric in the sign, and so of exact arithmetic too.
\<close>

theorem calculateRelevanceScore_monotone:
  assumes "rounding rnd"
      and "factors_le (p, i, q) (p', i', q')"
  shows "calculateRelevanceScore rnd p i q \<le> calculateRelevanceScore rnd p' i' q'"
proof -
  note r = assms(1)
  from assms(2) have
    tq: "titleQueryMatch p q \<longrightarrow> titleQueryMatch p' q'" and
    tk: "titleKeywordMatches p i \<le> titleKeywordMatches p' i'" and
    dq: "descriptionQueryMatch p q \<longrightarrow> descriptionQueryMatch p' q'" and
    dk: "descriptionKeywordMatches p i \<le> descriptionKeywordMatches p' i'" and
    tm: "topicMatch p i \<longrightarrow> topicMatch p' i'" and
    dm: "difficultyMatch p i \<longrightarrow> difficultyMatch p' i'" and
    dd: "durationDifference p' i' \<le> durationDifference p i" and
    cr: "completion_rate p \<le> completion_rate p'" and
    tn: "total_nodes p \<le> total_nodes p'" and
    tg: "tagKeywordMatches p i \<le> tagKeywordMatches p' i'"
    by (simp_all add: factors_le_def)
  have dd': "\<bar>rnd (path_estimated_duration p' - estimatedDuration i')\<bar>
               \<le> \<bar>rnd (path_estimated_duration p - estimatedDuration i)\<bar>"
    using dd by (simp add: rnd_abs [OF r] durationDifference_def rnd_mono [OF r])
  have tg': "(case path_tags p of
                None \<Rightarrow> 0
              | Some tags \<Rightarrow>
                  length (filter (\<lambda>k. list_ex (\<lambda>tag. str_includes (toLowerCase tag) k) tags)
                            (keywords' i)))
             \<le> (case path_tags p' of
                  None \<Rightarrow> 0
                | Some tags \<Rightarrow>
                    length (filter (\<lambda>k. list_ex (\<lambda>tag. str_includes (toLowerCase tag) k) tags)
                              (keywords' i')))"
    using tg by (simp add: tagKeywordMatches_def count_matches_def split: option.splits)
  show ?thesis
    unfolding calculateRelevanceScore_rounded
    using tq tk dq dk tm dm cr tn
    by (intro roundedSum_mono [OF r] dd' tg')
       (simp_all add: titleQueryMatch_def titleKeywordMatches_def descriptionQueryMatch_def
          descriptionKeywordMatches_def topicMatch_def difficultyMatch_def count_matches_def)
qed

theorem calculateRelevanceScore_monotone_witness:
  "rounding exactArithmetic
   \<and> factors_le (samplePath, sampleIntent, ''chess'')
       (samplePath\<lparr> completion_rate := 9 / 10 \<rparr>, sampleIntent, ''chess'')
   \<and> calculateRelevanceScore exactArithmetic samplePath sampleIntent ''chess''
       \<le> calculateRelevanceScore exactArithmetic (samplePath\<lparr> completion_rate := 9 / 10 \<rparr>)
            sampleIntent ''chess''"
proof -
  have h: "factors_le (samplePath, sampleIntent, ''chess'')
             (samplePath\<lparr> completion_rate := 9 / 10 \<rparr>, sampleIntent, ''chess'')"
    by (simp add: factors_le_def titleQueryMatch_def titleKeywordMatches_def
          descriptionQueryMatch_def descriptionKeywordMatches_def topicMatch_def
          difficultyMatch_def durationDifference_def tagKeywordMatches_def samplePath_def)
  from calculateRelevanceScore_monotone [OF rounding_exactArithmetic h] h
    rounding_exactArithmetic
  show ?thesis by simp
qed

section \<open>Properties of the search orchestrator\<close>




















section \<open>Properties of the query cache\<close>

text \<open>
  C2, as the claim states it, fails: an entry written at time 0 and read at time 300000
  (an age of exactly five minutes) is not served. The store is asked, and since it fails
  here the read returns \<open>null\<close>, not the cached payload.
\<close>

theorem cache_boundary_counterexample:
  "fetchPathWithNodes 300000 300000 (\<lambda>pathId. Rejected (ErrorInstance ''offline''))
     (Map.empty(''path-nodes-p1'' \<mapsto> \<lparr> data = PathRows [], timestamp = 0 \<rparr>)) ''p1''
   = (Null, Map.empty(''path-nodes-p1'' \<mapsto> \<lparr> data = PathRows [], timestamp = 0 \<rparr>),
      [SelectPathWithNodes ''p1''])"
  by (simp add: fetchPathWithNodes_def fetchPathRemote_def CACHE_DURATION_def)

text \<open>
  C2, amended: a read of an entry whose age is strictly less than the TTL (five minutes,
  300000 ms) is a hit: the cached payload is returned, the cache is unchanged and the
  store is not called. A read at an age equal to or greater than the TTL is a miss: the
  store is called once. This holds for \<open>fetchPathWithNodes\<close> and for \<open>getUserProgress\<close>.
\<close>

theorem cache_freshness:
  "(queryCache (''path-nodes-'' @ pathId) = Some cached \<longrightarrow>
      (now - timestamp cached < 300000 \<longrightarrow>
         fetchPathWithNodes now now' fetch queryCache pathId = (data cached, queryCache, []))
      \<and> (300000 \<le> now - timestamp cached \<longrightarrow>
         fetchPathWithNodes now now' fetch queryCache pathId
           = fetchPathRemote now' fetch queryCache pathId
         \<and> snd (snd (fetchPathWithNodes now now' fetch queryCache pathId))
           = [SelectPathWithNodes pathId]))
   \<and> (queryCache (''progress-'' @ userId @ ''-'' @ pathId) = Some cached' \<longrightarrow>
      (now - timestamp cached' < 300000 \<longrightarrow>
         getUserProgress now now' fetch' queryCache userId pathId
           = (data cached', queryCache, []))
      \<and> (300000 \<le> now - timestamp cached' \<longrightarrow>
         getUserProgress now now' fetch' queryCache userId pathId
           = progressRemote now' fetch' queryCache userId pathId
         \<and> snd (snd (getUserProgress now now' fetch' queryCache userId pathId))
           = [SelectProgress userId pathId]))"
proof -
  have remote: "snd (snd (fetchPathRemote now' fetch queryCache pathId))
                  = [SelectPathWithNodes pathId]"
    by (simp add: fetchPathRemote_def Let_def
          split: response.splits option.splits prod.splits)
  have remote': "snd (snd (progressRemote now' fetch' queryCache userId pathId))
                   = [SelectProgress userId pathId]"
    by (simp add: progressRemote_def Let_def split: response.splits option.splits)
  show ?thesis
    using remote remote'
    by (simp add: fetchPathWithNodes_def getUserProgress_def CACHE_DURATION_def)
qed

theorem cache_freshness_witness:
  "fetchPathWithNodes 299999 299999 (\<lambda>pathId. Rejected (ErrorInstance ''offline''))
     (Map.empty(''path-nodes-p1'' \<mapsto> \<lparr> data = PathRows [], timestamp = 0 \<rparr>)) ''p1''
   = (PathRows [], Map.empty(''path-nodes-p1'' \<mapsto> \<lparr> data = PathRows [], timestamp = 0 \<rparr>), [])
   \<and> snd (snd (fetchPathWithNodes 300000 300000 (\<lambda>pathId. Rejected (ErrorInstance ''offline''))
        (Map.empty(''path-nodes-p1'' \<mapsto> \<lparr> data = PathRows [], timestamp = 0 \<rparr>)) ''p1''))
     = [SelectPathWithNodes ''p1'']"
  using cache_freshness
      [of "Map.empty(''path-nodes-p1'' \<mapsto> \<lparr> data = PathRows [], timestamp = 0 \<rparr>)" "''p1''"
          "\<lparr> data = PathRows [], timestamp = 0 \<rparr>" 299999 299999
          "\<lambda>pathId. Rejected (ErrorInstance ''offline'')"]
    cache_freshness
      [of "Map.empty(''path-nodes-p1'' \<mapsto> \<lparr> data = PathRows [], timestamp = 0 \<rparr>)" "''p1''"
          "\<lparr> data = PathRows [], timestamp = 0 \<rparr>" 300000 300000
          "\<lambda>pathId. Rejected (ErrorInstance ''offline'')"]
  by (simp add: fetchPathRemote_def)

section \<open>Properties of the delete protocol\<close>

text \<open>
  C3: when the path is in the store and its stored owner differs from the requester,
  \<open>deletePath\<close> fails, no delete is issued to the store, and the store (with the path
  in it) and the cache are unchanged. When the read that resolves the path succeeds, the
  failure is the not-authorized error, which differs from the not-found error (the one a
  missing row gives).
\<close>

theorem deletePath_not_owner:
  assumes "rows st pathId = Some path"
      and "created_by path \<noteq> userId"
  shows "(select_fault st = NoFault \<longrightarrow>
            deletePath st queryCache pathId userId
              = (Inl notAuthorized, st, queryCache, [SelectPath pathId]))
         \<and> notAuthorized \<noteq> notFound
         \<and> (\<forall>st'. select_fault st' = NoFault \<longrightarrow> rows st' pathId = None \<longrightarrow>
                fst (deletePath st' queryCache pathId userId) = Inl notFound)
         \<and> isl (fst (deletePath st queryCache pathId userId))
         \<and> snd (deletePath st queryCache pathId userId) = (st, queryCache, [SelectPath pathId])
         \<and> DeletePath pathId \<notin> set (snd (snd (snd (deletePath st queryCache pathId userId))))
         \<and> rows (fst (snd (deletePath st queryCache pathId userId))) pathId = Some path"
proof -
  have refused: "\<exists>err. deleteBody st queryCache pathId userId
                        = (Inl err, st, queryCache, [SelectPath pathId])"
    using assms by (cases "select_fault st") (simp_all add: deleteBody_def store_select_def)
  then obtain err where body: "deleteBody st queryCache pathId userId
                                 = (Inl err, st, queryCache, [SelectPath pathId])"
    by blast
  have general: "deletePath st queryCache pathId userId
                   = (Inl (rethrowWithContext err), st, queryCache, [SelectPath pathId])"
    by (simp add: deletePath_def body)
  have authorised: "select_fault st = NoFault \<longrightarrow> rethrowWithContext err = notAuthorized"
    using assms body
    by (auto simp add: deleteBody_def store_select_def rethrowWithContext_def notAuthorized_def)
  have missing: "\<forall>st'. select_fault st' = NoFault \<longrightarrow> rows st' pathId = None \<longrightarrow>
                   fst (deletePath st' queryCache pathId userId) = Inl notFound"
    by (simp add: deletePath_def deleteBody_def store_select_def rethrowWithContext_def
          notFound_def)
  show ?thesis
    using authorised missing assms(1)
    by (simp add: general notAuthorized_def notFound_def)
qed

theorem deletePath_not_owner_witness:
  "deletePath sampleStore Map.empty ''p1'' ''u2''
     = (Inl notAuthorized, sampleStore, Map.empty, [SelectPath ''p1''])
   \<and> rows (fst (snd (deletePath sampleStore Map.empty ''p1'' ''u2''))) ''p1'' = Some samplePath"
proof -
  have h1: "select_fault sampleStore = NoFault"
    by (simp add: sampleStore_def)
  have h2: "rows sampleStore ''p1'' = Some samplePath"
    by (simp add: sampleStore_def)
  have h3: "created_by samplePath \<noteq> ''u2''"
    by (simp add: samplePath_def)
  from deletePath_not_owner [OF h2 h3, of Map.empty] h1 h2 show ?thesis by simp
qed

text \<open>
  C4, as the claim states it, fails: when the delete on the store fails with the error
  "timeout", the caller does not see that error but a new one with another message.
\<close>

theorem deletePath_verbatim_counterexample:
  "fst (deletePath (sampleStore\<lparr> delete_fault := ErrorReturned (ErrorInstance ''timeout'') \<rparr>)
          Map.empty ''p1'' ''u1'')
     = Inl (ErrorInstance ''Failed to delete learning path: timeout'')
   \<and> fst (deletePath (sampleStore\<lparr> delete_fault := ErrorReturned (ErrorInstance ''timeout'') \<rparr>)
          Map.empty ''p1'' ''u1'')
     \<noteq> Inl (ErrorInstance ''timeout'')"
  by (simp add: deletePath_def deleteBody_def store_select_def store_delete_def
        rethrowWithContext_def sampleStore_def samplePath_def)

text \<open>
  C4, amended: when the path is found, the requester owns it and the delete on the store
  fails, the caller sees a new \<open>Error\<close> whose message is "Failed to delete learning
  path: " followed by the message of the store's error when that error is an \<open>Error\<close>
  instance, and by "Unknown deletion error" otherwise. It is never the store's error
  itself. The cache is not cleared.
\<close>

theorem deletePath_store_failure:
  assumes "select_fault st = NoFault"
      and "rows st pathId = Some path"
      and "created_by path = userId"
      and "delete_fault st = ErrorReturned e \<or> delete_fault st = CallRejected e"
  shows "fst (deletePath st queryCache pathId userId)
           = Inl (ErrorInstance (''Failed to delete learning path: '' @
                   (case e of ErrorInstance message \<Rightarrow> message
                            | OtherValue v \<Rightarrow> ''Unknown deletion error'')))
         \<and> fst (deletePath st queryCache pathId userId) \<noteq> Inl e
         \<and> fst (snd (snd (deletePath st queryCache pathId userId))) = queryCache"
proof -
  have body: "deleteBody st queryCache pathId userId
                = (Inl e, st, queryCache, [SelectPath pathId, DeletePath pathId])"
    using assms
    by (auto simp add: deleteBody_def store_select_def store_delete_def)
  have differs: "rethrowWithContext e \<noteq> e"
    by (cases e) (simp_all add: rethrowWithContext_def)
  show ?thesis
    using differs by (simp add: deletePath_def body) (simp add: rethrowWithContext_def)
qed

theorem deletePath_store_failure_witness:
  "fst (deletePath (sampleStore\<lparr> delete_fault := ErrorReturned (OtherValue ''timeout'') \<rparr>)
          Map.empty ''p1'' ''u1'')
     = Inl (ErrorInstance ''Failed to delete learning path: Unknown deletion error'')"
proof -
  let ?st = "sampleStore\<lparr> delete_fault := ErrorReturned (OtherValue ''timeout'') \<rparr>"
  have h1: "select_fault ?st = NoFault"
    by (simp add: sampleStore_def)
  have h2: "rows ?st ''p1'' = Some samplePath"
    by (simp add: sampleStore_def)
  have h3: "created_by samplePath = ''u1''"
    by (simp add: samplePath_def)
  have h4: "delete_fault ?st = ErrorReturned (OtherValue ''timeout'')
              \<or> delete_fault ?st = CallRejected (OtherValue ''timeout'')"
    by simp
  from deletePath_store_failure [OF h1 h2 h3 h4, of Map.empty] show ?thesis by simp
qed


section \<open>Properties of the content synthesis\<close>

lemma upto_snoc: "[1..int n] @ [1 + int n] = [1..1 + int n]"
  by (simp add: upto_rec2)

lemma counted_start: "counted ([], 1)"
  by (simp add: counted_def)

lemma counted_pushResource: "counted st \<Longrightarrow> counted (pushResource r st)"
  by (cases st) (simp add: counted_def pushResource_def upto_snoc add.commute)

lemma counted_fold_pushResource: "counted st \<Longrightarrow> counted (fold pushResource rs st)"
  by (induction rs arbitrary: st) (simp_all add: counted_pushResource)

lemma counted_pushExercise: "counted st \<Longrightarrow> counted (pushExercise d m st)"
  by (cases st) (simp add: counted_def pushExercise_def upto_snoc add.commute)

lemma counted_pushAssessment: "counted st \<Longrightarrow> counted (pushAssessment d m st)"
  by (cases st) (simp add: counted_def pushAssessment_def upto_snoc add.commute)

lemma counted_emitModule: "counted st \<Longrightarrow> counted (emitModule d m st)"
  by (simp add: emitModule_def counted_pushAssessment counted_pushExercise
        counted_fold_pushResource)

lemma counted_fold_emitModule: "counted st \<Longrightarrow> counted (fold (emitModule d) ms st)"
  by (induction ms arbitrary: st) (simp_all add: counted_emitModule)

lemma length_pushResource: "length (fst (pushResource r st)) = Suc (length (fst st))"
  by (cases st) (simp add: pushResource_def)

lemma length_fold_pushResource:
  "length (fst (fold pushResource rs st)) = length (fst st) + length rs"
  by (induction rs arbitrary: st) (simp_all add: length_pushResource)

lemma grows_pushExercise: "length (fst st) \<le> length (fst (pushExercise d m st))"
  by (cases st) (simp add: pushExercise_def)

lemma grows_pushAssessment: "length (fst st) \<le> length (fst (pushAssessment d m st))"
  by (cases st) (simp add: pushAssessment_def)

lemma grows_emitModule:
  "length (fst st) + length (resources m) \<le> length (fst (emitModule d m st))"
proof -
  have "length (fst st) + length (resources m) = length (fst (fold pushResource (resources m) st))"
    by (simp add: length_fold_pushResource)
  also have "\<dots> \<le> length (fst (pushExercise d m (fold pushResource (resources m) st)))"
    by (rule grows_pushExercise)
  also have "\<dots> \<le> length (fst (emitModule d m st))"
    unfolding emitModule_def by (rule grows_pushAssessment)
  finally show ?thesis .
qed

lemma grows_fold_emitModule:
  "length (fst st) \<le> length (fst (fold (emitModule d) ms st))"
proof (induction ms arbitrary: st)
  case Nil
  show ?case by simp
next
  case (Cons m ms)
  have "length (fst st) \<le> length (fst (emitModule d m st))"
    using grows_emitModule [of st m d] by simp
  also have "\<dots> \<le> length (fst (fold (emitModule d) ms (emitModule d m st)))"
    by (rule Cons.IH)
  finally show ?case by simp
qed

lemma stocked_select:
  assumes "stocked tp"
  shows "\<exists>m ms. selectModulesByDifficulty (modules tp) lvl = m # ms \<and> resources m \<noteq> []"
proof -
  from assms obtain m ms where ms: "modules tp = m # ms" and r: "resources m \<noteq> []"
    by (auto simp add: stocked_def split: list.splits)
  show ?thesis
    using r by (simp add: selectModulesByDifficulty_def ms min_def take_Suc_conv_app_nth)
qed

lemma stocked_database: "(key, tp) \<in> set topicDatabase \<Longrightarrow> stocked tp"
  by (auto simp add: topicDatabase_def stocked_def chessTopic_def cookingTopic_def
        guitarTopic_def programmingTopic_def photographyTopic_def)

lemma directMatch_member: "directMatch q db = Some (key, tp) \<Longrightarrow> (key, tp) \<in> set db"
  by (induction q db rule: directMatch.induct) (auto split: if_splits)

lemma scanKeywords_member:
  "scanKeywords db q k kws = Some (key, tp) \<Longrightarrow> (key, tp) \<in> set db"
  by (induction db q k kws rule: scanKeywords.induct)
     (auto split: if_splits option.splits dest: map_of_SomeD)

lemma scanKeywordMap_member:
  "scanKeywordMap db q km = Some (key, tp) \<Longrightarrow> (key, tp) \<in> set db"
  by (induction db q km rule: scanKeywordMap.induct)
     (auto split: option.splits dest: scanKeywords_member)

lemma numbered_structured:
  assumes "stocked tp"
  shows "numbered (nodes (generateStructuredPath txt tp key request))"
proof -
  define lvl where "lvl = difficultyName (difficultyOrBeginner (request_difficulty request))"
  define sel where "sel = selectModulesByDifficulty (modules tp) lvl"
  define d :: real where
    "d = of_int \<lceil>numberOr (request_duration request) (estimatedHours tp) / real (length sel)\<rceil>"
  define st where "st = fold (emitModule d) sel ([], 1)"
  have nodes: "nodes (generateStructuredPath txt tp key request) = fst st"
    by (simp add: generateStructuredPath_def Let_def st_def d_def sel_def lvl_def
          split: prod.splits)
  have "counted st"
    unfolding st_def by (intro counted_fold_emitModule counted_start)
  then have idx: "map order_index (fst st) = [1..int (length (fst st))]"
    by (simp add: counted_def)
  from stocked_select [OF assms] obtain m ms where sel': "sel = m # ms" and r: "resources m \<noteq> []"
    unfolding sel_def by blast
  have "0 < length (resources m)"
    using r by simp
  also have "\<dots> \<le> length (fst (emitModule d m ([], 1)))"
    using grows_emitModule [of "([], 1)" m d] by simp
  also have "\<dots> \<le> length (fst st)"
    unfolding st_def sel' using grows_fold_emitModule [of "emitModule d m ([], 1)" d ms] by simp
  finally have "fst st \<noteq> []"
    by auto
  with idx show ?thesis
    by (simp add: numbered_def nodes)
qed

lemma numbered_custom: "numbered (nodes (generateCustomPath txt request cat))"
  by (simp add: numbered_def generateCustomPath_def generateCustomModulesWithResources_def
        Let_def enumerate_simps upto.simps)

lemma numbered_fallback: "numbered (nodes (generateFallbackPath txt request))"
  by (simp add: numbered_def generateFallbackPath_def Let_def upto.simps)

lemma numbered_generatePath: "numbered (nodes (generatePath txt request))"
proof (cases "directMatch (toLowerCase (request_query request)) topicDatabase")
  case None
  note direct = None
  show ?thesis
  proof (cases "scanKeywordMap topicDatabase (toLowerCase (request_query request)) keywordMap")
    case None
    with direct show ?thesis
      by (simp add: generatePath_def generatePathBody_def detectTopic_def Let_def numbered_custom)
  next
    case (Some found)
    obtain key tp where f: "found = (key, tp)" by (cases found)
    from Some f have "stocked tp"
      by (auto dest: scanKeywordMap_member stocked_database)
    with direct Some f show ?thesis
      by (simp add: generatePath_def generatePathBody_def detectTopic_def Let_def
            numbered_structured)
  qed
next
  case (Some found)
  obtain key tp where f: "found = (key, tp)" by (cases found)
  from Some f have "stocked tp"
    by (auto dest: directMatch_member stocked_database)
  with Some f show ?thesis
    by (simp add: generatePath_def generatePathBody_def detectTopic_def Let_def
          numbered_structured)
qed

text \<open>
  C1: for every generation request, the path returned by \<open>generatePath\<close> has at least
  one node and its nodes carry the order indexes 1, 2, ..., n in list order. The same
  holds for each of the three generators taken alone: the structured path of every
  topic of the knowledge base, the custom four-node path and the fallback path.
\<close>

theorem generatePath_order_index:
  "nodes (generatePath txt request) \<noteq> []
   \<and> map order_index (nodes (generatePath txt request))
       = [1..int (length (nodes (generatePath txt request)))]
   \<and> (\<forall>(key, tp) \<in> set topicDatabase.
         numbered (nodes (generateStructuredPath txt tp key request)))
   \<and> numbered (nodes (generateCustomPath txt request cat))
   \<and> length (nodes (generateCustomPath txt request cat)) = 4
   \<and> numbered (nodes (generateFallbackPath txt request))"
proof -
  have "numbered (nodes (generatePath txt request))"
    by (rule numbered_generatePath)
  moreover have "\<forall>(key, tp) \<in> set topicDatabase.
                   numbered (nodes (generateStructuredPath txt tp key request))"
    by (auto dest: stocked_database intro: numbered_structured)
  moreover have "length (nodes (generateCustomPath txt request cat)) = 4"
    by (simp add: generateCustomPath_def generateCustomModulesWithResources_def Let_def)
  ultimately show ?thesis
    using numbered_custom numbered_fallback
    by (simp add: numbered_def)
qed

theorem generatePath_order_index_witness:
  "map order_index (nodes (generatePath sampleText sampleRequest))
     = [1, 2, 3, 4, 5, 6, 7, 8, 9, 10, 11, 12, 13, 14, 15]
   \<and> numbered (nodes (generateStructuredPath sampleText chessTopic ''chess'' sampleRequest))"
proof -
  have len: "length (nodes (generatePath sampleText sampleRequest)) = 15"
    by code_simp
  have mem: "(''chess'', chessTopic) \<in> set topicDatabase"
    by (simp add: topicDatabase_def)
  have upto: "[1..15::int] = [1, 2, 3, 4, 5, 6, 7, 8, 9, 10, 11, 12, 13, 14, 15]"
    by code_simp
  from generatePath_order_index [of sampleText sampleRequest] mem len upto show ?thesis
    by auto
qed

end
